theory Spec2Isabelle
  imports Main
begin

section \<open>The types command of ack-generate (cmd/ack-generate/command/types.go)\<close>

text \<open>
  The command reads an OpenAPI3 document from standard input or from a file, has the
  resources and type definitions extracted from it, and renders one Go file per
  artifact, either to standard output or into an output directory.

  The Go code talks to the operating system, to the YAML and OpenAPI libraries, to the
  packages \<open>pkg/resource\<close> and \<open>pkg/template\<close>. Each of these calls is a field of
  the record \<open>env\<close> below; every call the program makes is appended, with what it
  returned, to a trace of events. A call to the operating system may answer differently
  each time, so its field takes the trace so far as an argument.
\<close>

subsection \<open>Values\<close>

type_synonym bytes = string
type_synonym path = string

text \<open>\<open>contentType\<close>, with its three constants, lines 34 to 40.\<close>

datatype contentType = ctUnknown | ctJSON | ctYAML

text \<open>
  Go's \<open>error\<close> values: the ones this file builds with \<open>fmt.Errorf\<close>, the ones the
  libraries return (those of package \<open>os\<close> are classified by \<open>os.IsNotExist\<close> and
  \<open>os.IsPermission\<close>), and a run-time panic.
\<close>

datatype errkind = NotExist | Permission | OtherKind

datatype error = Errorf string | Foreign errkind string | Panic string

fun os_IsNotExist :: "error \<Rightarrow> bool" where
  "os_IsNotExist (Foreign NotExist m) = True"
| "os_IsNotExist e = False"

fun os_IsPermission :: "error \<Rightarrow> bool" where
  "os_IsPermission (Foreign Permission m) = True"
| "os_IsPermission e = False"

text \<open>
  An extension attribute of the document is a Go interface value. The loader stores a
  \<open>json.RawMessage\<close> (a byte slice, which may be nil); any other dynamic type makes the
  type assertion of \<open>apiGroupFromSwagger\<close> panic.
\<close>

datatype iface = RawMessage "bytes option" | OtherDynamicType

text \<open>\<open>json.RawMessage.MarshalJSON\<close>: the bytes themselves, \<open>null\<close> for a nil slice.\<close>

fun MarshalJSON :: "bytes option \<Rightarrow> bytes" where
  "MarshalJSON None = ''null''"
| "MarshalJSON (Some m) = m"

text \<open>
  \<open>openapi3.Swagger\<close> and \<open>resource.Resource\<close>: the fields this file reads. The other
  fields are the extension part of the record.
\<close>

record SwaggerInfo =
  Extensions :: "string \<rightharpoonup> iface"

record Swagger =
  Info :: SwaggerInfo

record Resource =
  Kind :: string

text \<open>The two options of the command, lines 42 to 45.\<close>

record opts =
  optGenVersion :: string
  optOutputPath :: string

subsection \<open>Strings\<close>

text \<open>
  \<open>strings.Replace(s, old, new, -1)\<close>: every non-overlapping occurrence of \<open>old\<close>,
  from the left, is replaced by \<open>new\<close>. With an empty \<open>old\<close> Go inserts \<open>new\<close> before
  every character and at the end (characters are single bytes here).
\<close>

function strings_Replace_all :: "string \<Rightarrow> string \<Rightarrow> string \<Rightarrow> string" where
  "strings_Replace_all s old new =
     (if old = [] then new @ concat (map (\<lambda>c. c # new) s)
      else if s = [] then []
      else if take (length old) s = old
        then new @ strings_Replace_all (drop (length old) s) old new
      else hd s # strings_Replace_all (tl s) old new)"
  by pat_completeness auto
termination
  by (relation "measure (\<lambda>(s, old, new). length s)") auto

declare strings_Replace_all.simps [simp del]

text \<open>\<open>apiGroupFromSwagger\<close>, lines 135 to 143.\<close>

definition apiGroupFromSwagger :: "'a Swagger_scheme \<Rightarrow> error + string" where
  "apiGroupFromSwagger api =
     (case (case Extensions (Info api) ''x-aws-api-alias'' of
              None \<Rightarrow> Inr ''unknown''
            | Some (RawMessage m) \<Rightarrow> Inr (MarshalJSON m)
            | Some OtherDynamicType \<Rightarrow>
                Inl (Panic ''interface conversion: interface {} is not json.RawMessage'')) of
        Inl e \<Rightarrow> Inl e
      | Inr apiAliasStr \<Rightarrow>
          Inr (strings_Replace_all (apiAliasStr @ ''.services.k8s.aws'') [CHR 0x22] []))"

text \<open>
  \<open>filepath.Ext\<close>: the suffix of the path from the last dot of its last element, the
  dot included; empty when that element has no dot. The loop runs from the end of the
  path to the first separator.
\<close>

fun Ext_loop :: "string \<Rightarrow> string \<Rightarrow> string" where
  "Ext_loop [] acc = []"
| "Ext_loop (c # cs) acc =
     (if c = CHR ''/'' then []
      else if c = CHR ''.'' then c # acc
      else Ext_loop cs (c # acc))"

definition filepath_Ext :: "path \<Rightarrow> string" where
  "filepath_Ext p = Ext_loop (rev p) []"

text \<open>\<open>strings.Join\<close>.\<close>

fun strings_Join :: "string list \<Rightarrow> string \<Rightarrow> string" where
  "strings_Join [] sep = []"
| "strings_Join [x] sep = x"
| "strings_Join (x # y # ys) sep = x @ sep @ strings_Join (y # ys) sep"

text \<open>
  The headline printed before an artifact on standard output, with its newline
  (\<open>fmt.Println\<close> of a constant for the first three artifacts, \<open>fmt.Printf\<close> with the
  file name for a resource: the same text).
\<close>

definition newline :: string where
  "newline = [CHR 0x0A]"

definition headline :: "string \<Rightarrow> string" where
  "headline name =
     replicate 29 (CHR ''='') @ '' '' @ name @ '' '' @ replicate 38 (CHR ''='') @ newline"

subsection \<open>Events and the environment\<close>

datatype open_flag = O_RDONLY | O_WRONLY | O_RDWR | O_APPEND | O_CREATE | O_EXCL | O_SYNC | O_TRUNC

record FileInfo =
  IsDir :: bool

text \<open>The file modes the program passes: \<open>os.ModePerm\<close> (0777) and 0666.\<close>

definition ModePerm :: nat where
  "ModePerm = 511"

definition mode0666 :: nat where
  "mode0666 = 438"

text \<open>
  The four templates of \<open>pkg/template\<close> and the variables each is executed with. A
  parsed template is a value of the type parameter \<open>'p\<close>, a type definition
  (\<open>resource.TypeDef\<close>) one of \<open>'t\<close>.
\<close>

datatype template_kind = DocTemplate | GroupVersionInfoTemplate | TypesTemplate | ResourceTemplate

datatype ('r, 't) template_vars =
    DocTemplateVars string string
  | GroupVersionInfoTemplateVars string string
  | TypesTemplateVars string "'t list"
  | ResourceTemplateVars string "'r Resource_scheme"

text \<open>One event per call that leaves the program, with the arguments and the answer.\<close>

datatype ('a, 'r, 't, 'p) event =
    EvReadAll_Stdin "error + bytes"
  | EvReadFile path "error + bytes"
  | EvYAMLToJSON bytes "error + bytes"
  | EvLoadSwaggerFromData bytes "error + 'a Swagger_scheme"
  | EvResourcesFromAPI "'a Swagger_scheme" "error + 'r Resource_scheme list"
  | EvTypeDefsFromAPI "'a Swagger_scheme" "'r Resource_scheme list" "error + 't list"
  | EvStat path "error + FileInfo"
  | EvMkdirAll path nat "error option"
  | EvOpenFile path "open_flag list" nat "error + nat"
  | EvClose nat
  | EvNewTemplate template_kind string "error + 'p"
  | EvExecute 'p "('r, 't) template_vars" "error + bytes"
  | EvStdout string
  | EvWriteFile path bytes nat "error option"

type_synonym ('a, 'r, 't, 'p) trace = "('a, 'r, 't, 'p) event list"

text \<open>
  Modelled from the spec: \<open>resource.ResourcesFromAPI\<close> and \<open>resource.TypeDefsFromAPI\<close>
  (package \<open>pkg/resource\<close>, whose code is not among the sources) are the fields
  \<open>resource_ResourcesFromAPI\<close> and \<open>resource_TypeDefsFromAPI\<close>. The spec gives their
  contract: the Resource list is an ordered list determined by the document, its order
  independent of map iteration order (4.3), and the TypeDef list is an ordered list
  determined by the document and the Resource list (4.4); both may fail. So each is a
  function of its arguments alone, to an error or a list.

  The other fields: the package variable \<open>templatesDir\<close> (declared in another file of the
  package); the library functions on strings and bytes, functions of their arguments;
  the calls to the operating system and the template constructors of \<open>pkg/template\<close>
  (which read the template directory), functions of the trace so far and their
  arguments. \<open>os_OpenFile\<close> answers with a file descriptor.
\<close>

record ('a, 'r, 't, 'p) env =
  templatesDir :: string
  filepath_Clean :: "path \<Rightarrow> path"
  strings_TrimSpace :: "string \<Rightarrow> string"
  strcase_ToSnake :: "string \<Rightarrow> string"
  yaml_YAMLToJSON :: "bytes \<Rightarrow> error + bytes"
  openapi3_LoadSwaggerFromData :: "bytes \<Rightarrow> error + 'a Swagger_scheme"
  resource_ResourcesFromAPI :: "'a Swagger_scheme \<Rightarrow> error + 'r Resource_scheme list"
  resource_TypeDefsFromAPI ::
    "'a Swagger_scheme \<Rightarrow> 'r Resource_scheme list \<Rightarrow> error + 't list"
  tpl_Execute :: "'p \<Rightarrow> ('r, 't) template_vars \<Rightarrow> error + bytes"
  ioutil_ReadAll_Stdin :: "('a, 'r, 't, 'p) trace \<Rightarrow> error + bytes"
  ioutil_ReadFile :: "('a, 'r, 't, 'p) trace \<Rightarrow> path \<Rightarrow> error + bytes"
  ioutil_WriteFile :: "('a, 'r, 't, 'p) trace \<Rightarrow> path \<Rightarrow> bytes \<Rightarrow> nat \<Rightarrow> error option"
  os_Stat :: "('a, 'r, 't, 'p) trace \<Rightarrow> path \<Rightarrow> error + FileInfo"
  os_MkdirAll :: "('a, 'r, 't, 'p) trace \<Rightarrow> path \<Rightarrow> nat \<Rightarrow> error option"
  os_OpenFile ::
    "('a, 'r, 't, 'p) trace \<Rightarrow> path \<Rightarrow> open_flag list \<Rightarrow> nat \<Rightarrow> error + nat"
  template_New :: "('a, 'r, 't, 'p) trace \<Rightarrow> template_kind \<Rightarrow> string \<Rightarrow> error + 'p"

text \<open>\<open>filepath.Join\<close>: the elements from the first non-empty one on, joined and cleaned.\<close>

definition filepath_Join :: "('a, 'r, 't, 'p) env \<Rightarrow> string list \<Rightarrow> path" where
  "filepath_Join E elem =
     (case dropWhile (\<lambda>e. e = []) elem of
        [] \<Rightarrow> []
      | es \<Rightarrow> filepath_Clean E (strings_Join es ''/''))"

subsection \<open>The options\<close>

text \<open>
  \<open>init\<close>, lines 54 to 62: \<open>StringVarP\<close> registers a flag and stores its default value
  in the variable the flag is bound to. The variables start as empty strings.
\<close>

record flag =
  Name :: string
  Shorthand :: string
  DefValue :: string
  Usage :: string

definition StringVarP ::
  "(string \<Rightarrow> opts \<Rightarrow> opts) \<Rightarrow> string \<Rightarrow> string \<Rightarrow> string \<Rightarrow> string \<Rightarrow>
   opts \<times> flag list \<Rightarrow> opts \<times> flag list" where
  "StringVarP p name shorthand val usage s =
     (p val (fst s),
      snd s @ [\<lparr>Name = name, Shorthand = shorthand, DefValue = val, Usage = usage\<rparr>])"

definition init :: "opts \<times> flag list" where
  "init =
     StringVarP (\<lambda>v opt. opt\<lparr>optOutputPath := v\<rparr>) ''output'' ''o'' []
       ''path to output directory to send generated files. If empty, outputs all files to stdout''
       (StringVarP (\<lambda>v opt. opt\<lparr>optGenVersion := v\<rparr>) ''version'' ''v'' ''v1alpha1''
          ''the resource API Version to use when generating types''
          (\<lparr>optGenVersion = [], optOutputPath = []\<rparr>, []))"

subsection \<open>The output directory\<close>

text \<open>
  \<open>ensureOutputDir\<close>, lines 67 to 93. It returns a pair, whether the directory already
  existed and an error or nil.
\<close>

definition ensureOutputDir ::
  "('a, 'r, 't, 'p) env \<Rightarrow> opts \<Rightarrow> ('a, 'r, 't, 'p) trace \<Rightarrow>
   (bool \<times> error option) \<times> ('a, 'r, 't, 'p) trace" where
  "ensureOutputDir E cfg tr =
     (if optOutputPath cfg = [] then ((False, None), tr)
      else
        let st = os_Stat E tr (optOutputPath cfg);
            t1 = tr @ [EvStat (optOutputPath cfg) st]
        in case st of
             Inl err \<Rightarrow>
               if os_IsNotExist err then
                 let mk = os_MkdirAll E t1 (optOutputPath cfg) ModePerm
                 in ((False, mk), t1 @ [EvMkdirAll (optOutputPath cfg) ModePerm mk])
               else ((False, Some err), t1)
           | Inr fi \<Rightarrow>
               if \<not> IsDir fi then
                 ((False, Some (Errorf (''expected '' @ optOutputPath cfg @ '' to be a directory.''))), t1)
               else
                 let testPath = filepath_Join E [optOutputPath cfg, ''test''];
                     f = os_OpenFile E t1 testPath [O_WRONLY] mode0666;
                     t2 = t1 @ [EvOpenFile testPath [O_WRONLY] mode0666 f]
                 in case f of
                      Inl err \<Rightarrow>
                        if os_IsPermission err then
                          ((True, Some (Errorf (optOutputPath cfg @ '' is not a writeable directory.''))), t2)
                        else ((True, Some err), t2)
                    | Inr fd \<Rightarrow> ((True, None), t2 @ [EvClose fd]))"

subsection \<open>Loading the document\<close>

text \<open>
  \<open>getAPI\<close>, lines 242 to 287, in its two halves. The first (lines 243 to 265) reads
  the input and sets the content type from the arguments.
\<close>

definition msg_expected_document :: string where
  "msg_expected_document =
     ''expected OpenAPI3 descriptor document either via STDIN or path argument.''"

definition msg_got :: "bytes \<Rightarrow> string" where
  "msg_got b =
     ''expected OpenAPI3 descriptor document but got '' @ [CHR 0x27] @ b @ [CHR 0x27] @ ''.''"

definition getAPI_read ::
  "('a, 'r, 't, 'p) env \<Rightarrow> string list \<Rightarrow> ('a, 'r, 't, 'p) trace \<Rightarrow>
   (error + contentType \<times> bytes) \<times> ('a, 'r, 't, 'p) trace" where
  "getAPI_read E args tr =
     (case args of
        [] \<Rightarrow>
          (let r = ioutil_ReadAll_Stdin E tr;
               t1 = tr @ [EvReadAll_Stdin r]
           in case r of
                Inl err \<Rightarrow> (Inl (Errorf msg_expected_document), t1)
              | Inr b \<Rightarrow> (Inr (ctUnknown, b), t1))
      | [arg] \<Rightarrow>
          (let fp = filepath_Clean E arg;
               ext = filepath_Ext fp;
               contentType =
                 (if ext = ''json'' then ctJSON
                  else if ext = ''yaml'' \<or> ext = ''yml'' then ctYAML
                  else ctUnknown);
               r = ioutil_ReadFile E tr fp;
               t1 = tr @ [EvReadFile fp r]
           in case r of
                Inl err \<Rightarrow> (Inl err, t1)
              | Inr b \<Rightarrow> (Inr (contentType, b), t1))
      | _ \<Rightarrow> (Inl (Errorf msg_expected_document), tr))"

text \<open>
  The second half (lines 267 to 286) checks the length, brings the bytes into JSON and
  parses them.
\<close>

definition getAPI_decode ::
  "('a, 'r, 't, 'p) env \<Rightarrow> contentType \<Rightarrow> bytes \<Rightarrow> ('a, 'r, 't, 'p) trace \<Rightarrow>
   (error + 'a Swagger_scheme) \<times> ('a, 'r, 't, 'p) trace" where
  "getAPI_decode E contentType b tr =
     (if length b < 2 then (Inl (Errorf (msg_got b)), tr)
      else
        let (jsonb, t1) =
              (if contentType = ctYAML \<or>
                  (contentType = ctUnknown \<and> b ! 0 \<noteq> CHR ''{'' \<and> b ! 0 \<noteq> CHR ''['')
               then
                 let y = yaml_YAMLToJSON E b
                 in ((case y of Inl err \<Rightarrow> b | Inr j \<Rightarrow> j), tr @ [EvYAMLToJSON b y])
               else (b, tr));
            api = openapi3_LoadSwaggerFromData E jsonb
        in (api, t1 @ [EvLoadSwaggerFromData jsonb api]))"

definition getAPI ::
  "('a, 'r, 't, 'p) env \<Rightarrow> string list \<Rightarrow> ('a, 'r, 't, 'p) trace \<Rightarrow>
   (error + 'a Swagger_scheme) \<times> ('a, 'r, 't, 'p) trace" where
  "getAPI E args tr =
     (case getAPI_read E args tr of
        (Inl err, t1) \<Rightarrow> (Inl err, t1)
      | (Inr (contentType, b), t1) \<Rightarrow> getAPI_decode E contentType b t1)"

subsection \<open>Writing the artifacts\<close>

text \<open>
  The four write functions (lines 145 to 238) share their body: make the template,
  execute it into a buffer, then either print a headline and the trimmed buffer or write
  the buffer to a file of the output directory.
\<close>

definition render ::
  "('a, 'r, 't, 'p) env \<Rightarrow> template_kind \<Rightarrow> ('r, 't) template_vars \<Rightarrow>
   ('a, 'r, 't, 'p) trace \<Rightarrow> (error + bytes) \<times> ('a, 'r, 't, 'p) trace" where
  "render E k vars tr =
     (let tpl = template_New E tr k (templatesDir E);
          t1 = tr @ [EvNewTemplate k (templatesDir E) tpl]
      in case tpl of
           Inl err \<Rightarrow> (Inl err, t1)
         | Inr p \<Rightarrow>
             (let b = tpl_Execute E p vars
              in (b, t1 @ [EvExecute p vars b])))"

definition write_out ::
  "('a, 'r, 't, 'p) env \<Rightarrow> opts \<Rightarrow> string \<Rightarrow> bytes \<Rightarrow> ('a, 'r, 't, 'p) trace \<Rightarrow>
   error option \<times> ('a, 'r, 't, 'p) trace" where
  "write_out E cfg name b tr =
     (if optOutputPath cfg = [] then
        (None, tr @ [EvStdout (headline name), EvStdout (strings_TrimSpace E b @ newline)])
      else
        let p = filepath_Join E [optOutputPath cfg, name];
            w = ioutil_WriteFile E tr p b mode0666
        in (w, tr @ [EvWriteFile p b mode0666 w]))"

definition render_and_write ::
  "('a, 'r, 't, 'p) env \<Rightarrow> opts \<Rightarrow> template_kind \<Rightarrow> ('r, 't) template_vars \<Rightarrow> string \<Rightarrow>
   ('a, 'r, 't, 'p) trace \<Rightarrow> error option \<times> ('a, 'r, 't, 'p) trace" where
  "render_and_write E cfg k vars name tr =
     (case render E k vars tr of
        (Inl err, t1) \<Rightarrow> (Some err, t1)
      | (Inr b, t1) \<Rightarrow> write_out E cfg name b t1)"

definition writeDocGo ::
  "('a, 'r, 't, 'p) env \<Rightarrow> opts \<Rightarrow> 'a Swagger_scheme \<Rightarrow> ('a, 'r, 't, 'p) trace \<Rightarrow>
   error option \<times> ('a, 'r, 't, 'p) trace" where
  "writeDocGo E cfg api tr =
     (case apiGroupFromSwagger api of
        Inl err \<Rightarrow> (Some err, tr)
      | Inr apiGroup \<Rightarrow>
          render_and_write E cfg DocTemplate
            (DocTemplateVars (optGenVersion cfg) apiGroup) ''doc.go'' tr)"

definition writeGroupVersionInfoGo ::
  "('a, 'r, 't, 'p) env \<Rightarrow> opts \<Rightarrow> 'a Swagger_scheme \<Rightarrow> ('a, 'r, 't, 'p) trace \<Rightarrow>
   error option \<times> ('a, 'r, 't, 'p) trace" where
  "writeGroupVersionInfoGo E cfg api tr =
     (case apiGroupFromSwagger api of
        Inl err \<Rightarrow> (Some err, tr)
      | Inr apiGroup \<Rightarrow>
          render_and_write E cfg GroupVersionInfoTemplate
            (GroupVersionInfoTemplateVars (optGenVersion cfg) apiGroup)
            ''groupversion_info.go'' tr)"

definition writeTypesGo ::
  "('a, 'r, 't, 'p) env \<Rightarrow> opts \<Rightarrow> 't list \<Rightarrow> ('a, 'r, 't, 'p) trace \<Rightarrow>
   error option \<times> ('a, 'r, 't, 'p) trace" where
  "writeTypesGo E cfg typeDefs tr =
     render_and_write E cfg TypesTemplate
       (TypesTemplateVars (optGenVersion cfg) typeDefs) ''types.go'' tr"

definition resFileName :: "('a, 'r, 't, 'p) env \<Rightarrow> 'r Resource_scheme \<Rightarrow> string" where
  "resFileName E res = strcase_ToSnake E (Kind res) @ ''.go''"

definition writeResourceGo ::
  "('a, 'r, 't, 'p) env \<Rightarrow> opts \<Rightarrow> 'r Resource_scheme \<Rightarrow> ('a, 'r, 't, 'p) trace \<Rightarrow>
   error option \<times> ('a, 'r, 't, 'p) trace" where
  "writeResourceGo E cfg res tr =
     render_and_write E cfg ResourceTemplate
       (ResourceTemplateVars (optGenVersion cfg) res) (resFileName E res) tr"

subsection \<open>The command\<close>

text \<open>The loop of lines 127 to 131: one file per resource, stopping at the first error.\<close>

fun writeResources ::
  "('a, 'r, 't, 'p) env \<Rightarrow> opts \<Rightarrow> 'r Resource_scheme list \<Rightarrow> ('a, 'r, 't, 'p) trace \<Rightarrow>
   error option \<times> ('a, 'r, 't, 'p) trace" where
  "writeResources E cfg [] tr = (None, tr)"
| "writeResources E cfg (res # rest) tr =
     (case writeResourceGo E cfg res tr of
        (Some err, t1) \<Rightarrow> (Some err, t1)
      | (None, t1) \<Rightarrow> writeResources E cfg rest t1)"

text \<open>\<open>generateTypes\<close>, lines 97 to 133.\<close>

definition generateTypes ::
  "('a, 'r, 't, 'p) env \<Rightarrow> opts \<Rightarrow> string list \<Rightarrow> ('a, 'r, 't, 'p) trace \<Rightarrow>
   error option \<times> ('a, 'r, 't, 'p) trace" where
  "generateTypes E cfg args tr =
     (case getAPI E args tr of
        (Inl err, t1) \<Rightarrow> (Some err, t1)
      | (Inr api, t1) \<Rightarrow>
     let rs = resource_ResourcesFromAPI E api;
         t2 = t1 @ [EvResourcesFromAPI api rs]
     in case rs of
        Inl err \<Rightarrow> (Some err, t2)
      | Inr resources \<Rightarrow>
     let tds = resource_TypeDefsFromAPI E api resources;
         t3 = t2 @ [EvTypeDefsFromAPI api resources tds]
     in case tds of
        Inl err \<Rightarrow> (Some err, t3)
      | Inr typeDefs \<Rightarrow>
     case ensureOutputDir E cfg t3 of
        ((existed, Some err), t4) \<Rightarrow> (Some err, t4)
      | ((existed, None), t4) \<Rightarrow>
     case writeDocGo E cfg api t4 of
        (Some err, t5) \<Rightarrow> (Some err, t5)
      | (None, t5) \<Rightarrow>
     case writeGroupVersionInfoGo E cfg api t5 of
        (Some err, t6) \<Rightarrow> (Some err, t6)
      | (None, t6) \<Rightarrow>
     case writeTypesGo E cfg typeDefs t6 of
        (Some err, t7) \<Rightarrow> (Some err, t7)
      | (None, t7) \<Rightarrow> writeResources E cfg resources t7)"

section \<open>Observations on traces\<close>

text \<open>The first byte of the input that is not white space, in the spec's words.\<close>

definition is_space :: "char \<Rightarrow> bool" where
  "is_space c = (c \<in> set [CHR 0x20, CHR 0x09, CHR 0x0A, CHR 0x0B, CHR 0x0C, CHR 0x0D])"

definition first_non_whitespace :: "bytes \<Rightarrow> char option" where
  "first_non_whitespace b = (case dropWhile is_space b of [] \<Rightarrow> None | c # cs \<Rightarrow> Some c)"

fun is_YAMLToJSON :: "('a, 'r, 't, 'p) event \<Rightarrow> bool" where
  "is_YAMLToJSON (EvYAMLToJSON b y) = True"
| "is_YAMLToJSON e = False"

text \<open>
  Classes of events: the calls that turn the bytes read into the document, the Resource
  list and the TypeDef list; the reads of the input; what a run emits (a print on
  standard output or a file written); the calls that touch the file system; the calls of
  \<open>ensureOutputDir\<close>; the reads and the YAML pass that come before the parser.
\<close>

fun is_compile :: "('a, 'r, 't, 'p) event \<Rightarrow> bool" where
  "is_compile (EvYAMLToJSON b y) = True"
| "is_compile (EvLoadSwaggerFromData b api) = True"
| "is_compile (EvResourcesFromAPI api rs) = True"
| "is_compile (EvTypeDefsFromAPI api rs tds) = True"
| "is_compile e = False"

fun is_read :: "('a, 'r, 't, 'p) event \<Rightarrow> bool" where
  "is_read (EvReadAll_Stdin r) = True"
| "is_read (EvReadFile p r) = True"
| "is_read e = False"

fun is_input :: "('a, 'r, 't, 'p) event \<Rightarrow> bool" where
  "is_input (EvReadAll_Stdin r) = True"
| "is_input (EvReadFile p r) = True"
| "is_input (EvYAMLToJSON b y) = True"
| "is_input e = False"

fun is_emit :: "('a, 'r, 't, 'p) event \<Rightarrow> bool" where
  "is_emit (EvStdout s) = True"
| "is_emit (EvWriteFile p b m w) = True"
| "is_emit e = False"

fun is_filesystem :: "('a, 'r, 't, 'p) event \<Rightarrow> bool" where
  "is_filesystem (EvStat p st) = True"
| "is_filesystem (EvMkdirAll p m mk) = True"
| "is_filesystem (EvOpenFile p fl m f) = True"
| "is_filesystem (EvClose fd) = True"
| "is_filesystem (EvWriteFile p b m w) = True"
| "is_filesystem e = False"

fun is_dir_event :: "('a, 'r, 't, 'p) event \<Rightarrow> bool" where
  "is_dir_event (EvStat p st) = True"
| "is_dir_event (EvMkdirAll p m mk) = True"
| "is_dir_event (EvOpenFile p fl m f) = True"
| "is_dir_event (EvClose fd) = True"
| "is_dir_event e = False"

text \<open>
  The events that lines 111 to 132 of \<open>generateTypes\<close> can add under given options:
  template and print events without an output path; template, directory and file events
  with one.
\<close>

fun is_out_event :: "opts \<Rightarrow> ('a, 'r, 't, 'p) event \<Rightarrow> bool" where
  "is_out_event cfg (EvNewTemplate k d p) = True"
| "is_out_event cfg (EvExecute p vars b) = True"
| "is_out_event cfg (EvStdout s) = (optOutputPath cfg = [])"
| "is_out_event cfg (EvWriteFile p b m w) = (optOutputPath cfg \<noteq> [])"
| "is_out_event cfg (EvStat p st) = (optOutputPath cfg \<noteq> [])"
| "is_out_event cfg (EvMkdirAll p m mk) = (optOutputPath cfg \<noteq> [])"
| "is_out_event cfg (EvOpenFile p fl m f) = (optOutputPath cfg \<noteq> [])"
| "is_out_event cfg (EvClose fd) = (optOutputPath cfg \<noteq> [])"
| "is_out_event cfg e = False"

text \<open>
  \<open>adds P tr tr'\<close>: the trace \<open>tr'\<close> is \<open>tr\<close> followed by events of class \<open>P\<close>.
\<close>

definition adds ::
  "(('a, 'r, 't, 'p) event \<Rightarrow> bool) \<Rightarrow> ('a, 'r, 't, 'p) trace \<Rightarrow> ('a, 'r, 't, 'p) trace \<Rightarrow> bool" where
  "adds P tr tr' = (\<exists>evs. tr' = tr @ evs \<and> list_all P evs)"

text \<open>
  The events of one artifact that was rendered and then displayed or written without an
  error, and those of the per-resource artifacts of a list of resources, each with the
  template and the bytes it was rendered to.
\<close>

definition rendered ::
  "('a, 'r, 't, 'p) env \<Rightarrow> template_kind \<Rightarrow> ('r, 't) template_vars \<Rightarrow> 'p \<Rightarrow> bytes \<Rightarrow>
   ('a, 'r, 't, 'p) trace" where
  "rendered E k vars p b = [EvNewTemplate k (templatesDir E) (Inr p), EvExecute p vars (Inr b)]"

definition displayed :: "('a, 'r, 't, 'p) env \<Rightarrow> string \<Rightarrow> bytes \<Rightarrow> ('a, 'r, 't, 'p) trace" where
  "displayed E name b = [EvStdout (headline name), EvStdout (strings_TrimSpace E b @ newline)]"

definition written ::
  "('a, 'r, 't, 'p) env \<Rightarrow> opts \<Rightarrow> string \<Rightarrow> bytes \<Rightarrow> ('a, 'r, 't, 'p) trace" where
  "written E cfg name b = [EvWriteFile (filepath_Join E [optOutputPath cfg, name]) b mode0666 None]"

definition artifact ::
  "('a, 'r, 't, 'p) env \<Rightarrow> opts \<Rightarrow> template_kind \<Rightarrow> ('r, 't) template_vars \<Rightarrow> string \<Rightarrow>
   'p \<Rightarrow> bytes \<Rightarrow> ('a, 'r, 't, 'p) trace" where
  "artifact E cfg k vars name p b =
     rendered E k vars p b @
     (if optOutputPath cfg = [] then displayed E name b else written E cfg name b)"

definition resource_artifacts ::
  "('a, 'r, 't, 'p) env \<Rightarrow> opts \<Rightarrow> ('r Resource_scheme \<times> 'p \<times> bytes) list \<Rightarrow>
   ('a, 'r, 't, 'p) trace" where
  "resource_artifacts E cfg xs =
     concat (map (\<lambda>(res, p, b).
       artifact E cfg ResourceTemplate (ResourceTemplateVars (optGenVersion cfg) res)
         (resFileName E res) p b) xs)"

text \<open>
  Lines 111 to 132 of \<open>generateTypes\<close> as a function of their own: the output
  directory, the three fixed artifacts, the resources.
\<close>

definition emit_stage ::
  "('a, 'r, 't, 'p) env \<Rightarrow> opts \<Rightarrow> 'a Swagger_scheme \<Rightarrow> 'r Resource_scheme list \<Rightarrow> 't list \<Rightarrow>
   ('a, 'r, 't, 'p) trace \<Rightarrow> error option \<times> ('a, 'r, 't, 'p) trace" where
  "emit_stage E cfg api resources typeDefs t3 =
     (case ensureOutputDir E cfg t3 of
        ((existed, Some err), t4) \<Rightarrow> (Some err, t4)
      | ((existed, None), t4) \<Rightarrow>
     case writeDocGo E cfg api t4 of
        (Some err, t5) \<Rightarrow> (Some err, t5)
      | (None, t5) \<Rightarrow>
     case writeGroupVersionInfoGo E cfg api t5 of
        (Some err, t6) \<Rightarrow> (Some err, t6)
      | (None, t6) \<Rightarrow>
     case writeTypesGo E cfg typeDefs t6 of
        (Some err, t7) \<Rightarrow> (Some err, t7)
      | (None, t7) \<Rightarrow> writeResources E cfg resources t7)"

text \<open>
  The artifacts of a run in the order \<open>generateTypes\<close> writes them, each with its
  template, its variables and its file name; the events of the artifacts that were
  rendered and emitted without an error; the events of one attempt that failed with an
  error: the template could not be made, or not be executed, or the file not be written.
\<close>

type_synonym ('r, 't) artifact_spec = "template_kind \<times> ('r, 't) template_vars \<times> string"

definition artifact_list ::
  "('a, 'r, 't, 'p) env \<Rightarrow> opts \<Rightarrow> string \<Rightarrow> 't list \<Rightarrow> 'r Resource_scheme list \<Rightarrow>
   ('r, 't) artifact_spec list" where
  "artifact_list E cfg apiGroup typeDefs resources =
     [(DocTemplate, DocTemplateVars (optGenVersion cfg) apiGroup, ''doc.go''),
      (GroupVersionInfoTemplate, GroupVersionInfoTemplateVars (optGenVersion cfg) apiGroup,
       ''groupversion_info.go''),
      (TypesTemplate, TypesTemplateVars (optGenVersion cfg) typeDefs, ''types.go'')] @
     map (\<lambda>res. (ResourceTemplate, ResourceTemplateVars (optGenVersion cfg) res, resFileName E res))
       resources"

definition emitted_artifacts ::
  "('a, 'r, 't, 'p) env \<Rightarrow> opts \<Rightarrow> (('r, 't) artifact_spec \<times> 'p \<times> bytes) list \<Rightarrow>
   ('a, 'r, 't, 'p) trace" where
  "emitted_artifacts E cfg ys =
     concat (map (\<lambda>((k, vars, name), p, b). artifact E cfg k vars name p b) ys)"

definition attempt_failed ::
  "('a, 'r, 't, 'p) env \<Rightarrow> opts \<Rightarrow> ('r, 't) artifact_spec \<Rightarrow> error \<Rightarrow> ('a, 'r, 't, 'p) trace \<Rightarrow> bool" where
  "attempt_failed E cfg a err evs =
     (case a of (k, vars, name) \<Rightarrow>
        evs = [EvNewTemplate k (templatesDir E) (Inl err)] \<or>
        (\<exists>p. evs = [EvNewTemplate k (templatesDir E) (Inr p), EvExecute p vars (Inl err)]) \<or>
        (\<exists>p b. optOutputPath cfg \<noteq> [] \<and>
           evs = rendered E k vars p b @
             [EvWriteFile (filepath_Join E [optOutputPath cfg, name]) b mode0666 (Some err)]))"

text \<open>A list of artifacts written one after the other, up to the first error.\<close>

fun write_all ::
  "('a, 'r, 't, 'p) env \<Rightarrow> opts \<Rightarrow> ('r, 't) artifact_spec list \<Rightarrow> ('a, 'r, 't, 'p) trace \<Rightarrow>
   error option \<times> ('a, 'r, 't, 'p) trace" where
  "write_all E cfg [] tr = (None, tr)"
| "write_all E cfg ((k, vars, name) # rest) tr =
     (case render_and_write E cfg k vars name tr of
        (Some err, t1) \<Rightarrow> (Some err, t1)
      | (None, t1) \<Rightarrow> write_all E cfg rest t1)"

section \<open>Example documents and environments\<close>

definition quote :: char where
  "quote = CHR 0x22"

definition api_no_alias :: Swagger where
  "api_no_alias = \<lparr>Info = \<lparr>Extensions = Map.empty\<rparr>\<rparr>"

definition api_rds :: Swagger where
  "api_rds =
     \<lparr>Info = \<lparr>Extensions = [''x-aws-api-alias'' \<mapsto> RawMessage (Some (quote # ''rds'' @ [quote]))]\<rparr>\<rparr>"

definition cfg_stdout :: opts where
  "cfg_stdout = \<lparr>optGenVersion = ''v1alpha1'', optOutputPath = []\<rparr>"

definition cfg_out :: opts where
  "cfg_out = \<lparr>optGenVersion = ''v1alpha1'', optOutputPath = ''out''\<rparr>"

definition toSnake_example :: "string \<Rightarrow> string" where
  "toSnake_example s =
     (if s = ''Bucket'' then ''bucket'' else if s = ''Queue'' then ''queue'' else s)"

text \<open>
  An environment in which every call succeeds, the input is the two bytes \<open>{}\<close>, the
  YAML pass rejects what it is given, the document has two resources and one type
  definition, and the output directory does not exist yet.
\<close>

definition E0 :: "(unit, unit, string, string) env" where
  "E0 =
     \<lparr>templatesDir = ''templates'',
      filepath_Clean = (\<lambda>p. p),
      strings_TrimSpace = (\<lambda>s. s),
      strcase_ToSnake = toSnake_example,
      yaml_YAMLToJSON = (\<lambda>b. Inl (Foreign OtherKind ''yaml: not a mapping'')),
      openapi3_LoadSwaggerFromData = (\<lambda>b. Inr api_rds),
      resource_ResourcesFromAPI = (\<lambda>api. Inr [\<lparr>Kind = ''Bucket''\<rparr>, \<lparr>Kind = ''Queue''\<rparr>]),
      resource_TypeDefsFromAPI = (\<lambda>api rs. Inr [''Tag'']),
      tpl_Execute = (\<lambda>p vars. Inr (''package '' @ p)),
      ioutil_ReadAll_Stdin = (\<lambda>tr. Inr ''{}''),
      ioutil_ReadFile = (\<lambda>tr p. Inr ''{}''),
      ioutil_WriteFile = (\<lambda>tr p b m. None),
      os_Stat = (\<lambda>tr p. Inl (Foreign NotExist ''stat: no such file or directory'')),
      os_MkdirAll = (\<lambda>tr p m. None),
      os_OpenFile = (\<lambda>tr p fl m. Inl (Foreign NotExist ''open: no such file or directory'')),
      template_New = (\<lambda>tr k d. Inr ''v1'')\<rparr>"

definition E_one_byte :: "(unit, unit, string, string) env" where
  "E_one_byte = E0\<lparr>ioutil_ReadAll_Stdin := (\<lambda>tr. Inr ''{'')\<rparr>"

definition E_leading_space :: "(unit, unit, string, string) env" where
  "E_leading_space = E0\<lparr>ioutil_ReadAll_Stdin := (\<lambda>tr. Inr '' {}'')\<rparr>"

definition E_yaml_text :: "(unit, unit, string, string) env" where
  "E_yaml_text = E0\<lparr>ioutil_ReadFile := (\<lambda>tr p. Inr ''openapi: 3.0.0'')\<rparr>"

definition E_dir_exists :: "(unit, unit, string, string) env" where
  "E_dir_exists = E0\<lparr>os_Stat := (\<lambda>tr p. Inr \<lparr>IsDir = True\<rparr>)\<rparr>"

definition E_mkdir_denied :: "(unit, unit, string, string) env" where
  "E_mkdir_denied =
     E0\<lparr>os_MkdirAll := (\<lambda>tr p m. Some (Foreign Permission ''mkdir out: permission denied''))\<rparr>"

text \<open>
  The template of the second artifact cannot be opened; the resource extractor fails;
  the type-definition extractor fails.
\<close>

definition E_gvi_template_missing :: "(unit, unit, string, string) env" where
  "E_gvi_template_missing =
     E0\<lparr>template_New :=
          (\<lambda>tr k d. if k = GroupVersionInfoTemplate
             then Inl (Foreign NotExist ''open templates/groupversion_info.go.tpl: no such file or directory'')
             else Inr ''v1'')\<rparr>"

definition E_resources_fail :: "(unit, unit, string, string) env" where
  "E_resources_fail =
     E0\<lparr>resource_ResourcesFromAPI := (\<lambda>api. Inl (Foreign OtherKind ''invalid resource shape''))\<rparr>"

definition E_typedefs_fail :: "(unit, unit, string, string) env" where
  "E_typedefs_fail =
     E0\<lparr>resource_TypeDefsFromAPI := (\<lambda>api rs. Inl (Foreign OtherKind ''unsupported schema shape''))\<rparr>"

text \<open>An empty input file; an output directory that holds a file \<open>test\<close>.\<close>

definition E_empty_file :: "(unit, unit, string, string) env" where
  "E_empty_file = E0\<lparr>ioutil_ReadFile := (\<lambda>tr p. Inr [])\<rparr>"

definition E_probe_ok :: "(unit, unit, string, string) env" where
  "E_probe_ok =
     E0\<lparr>os_Stat := (\<lambda>tr p. Inr \<lparr>IsDir = True\<rparr>), os_OpenFile := (\<lambda>tr p fl m. Inr 3)\<rparr>"

section \<open>Properties\<close>

subsection \<open>The API group\<close>

lemma strings_Replace_all_remove_char:
  "strings_Replace_all s [q] [] = filter (\<lambda>c. c \<noteq> q) s"
proof (induction s)
  case Nil
  show ?case by (simp add: strings_Replace_all.simps)
next
  case (Cons c cs)
  show ?case
    using Cons.IH by (subst strings_Replace_all.simps) simp
qed

lemmas run_defs =
  generateTypes_def getAPI_def getAPI_read_def getAPI_decode_def ensureOutputDir_def
  writeDocGo_def writeGroupVersionInfoGo_def writeTypesGo_def writeResourceGo_def
  resFileName_def render_and_write_def render_def write_out_def filepath_Join_def
  apiGroupFromSwagger_def strings_Replace_all_remove_char Let_def

lemmas example_defs =
  E0_def cfg_out_def cfg_stdout_def api_rds_def quote_def toSnake_example_def

text \<open>
  C9. The API group is the alias followed by \<open>.services.k8s.aws\<close> with every
  double-quote character removed; the alias is the marshalled extension attribute
  \<open>x-aws-api-alias\<close>, and without that attribute the group is
  \<open>unknown.services.k8s.aws\<close>.
\<close>

theorem apiGroupFromSwagger_alias:
  "(Extensions (Info api) ''x-aws-api-alias'' = None \<longrightarrow>
      apiGroupFromSwagger api = Inr ''unknown.services.k8s.aws'') \<and>
   (\<forall>m. Extensions (Info api) ''x-aws-api-alias'' = Some (RawMessage m) \<longrightarrow>
      apiGroupFromSwagger api =
        Inr (filter (\<lambda>c. c \<noteq> CHR 0x22) (MarshalJSON m @ ''.services.k8s.aws'')))"
  by (simp add: apiGroupFromSwagger_def strings_Replace_all_remove_char)

theorem apiGroupFromSwagger_alias_witness:
  "apiGroupFromSwagger api_no_alias = Inr ''unknown.services.k8s.aws'' \<and>
   apiGroupFromSwagger api_rds = Inr ''rds.services.k8s.aws''"
  using apiGroupFromSwagger_alias [of api_no_alias] apiGroupFromSwagger_alias [of api_rds]
  by (simp add: api_no_alias_def api_rds_def quote_def)

subsection \<open>Loading the document\<close>

text \<open>
  \<open>filepath.Ext\<close> returns the extension with its dot, so it never equals one of the
  three strings \<open>getAPI\<close> compares it with, and the content type stays \<open>ctUnknown\<close>.
\<close>

lemma Ext_loop_dot: "Ext_loop cs acc = [] \<or> hd (Ext_loop cs acc) = CHR ''.''"
  by (induction cs arbitrary: acc) auto

lemma filepath_Ext_dot: "filepath_Ext p = [] \<or> hd (filepath_Ext p) = CHR ''.''"
  unfolding filepath_Ext_def by (rule Ext_loop_dot)

lemma filepath_Ext_never:
  "filepath_Ext p \<noteq> ''json''" "filepath_Ext p \<noteq> ''yaml''" "filepath_Ext p \<noteq> ''yml''"
  using filepath_Ext_dot [of p] by auto

lemma getAPI_read_ctUnknown:
  "getAPI_read E args tr = (Inr (ct, b), t1) \<Longrightarrow> ct = ctUnknown"
  by (auto simp: getAPI_read_def Let_def filepath_Ext_never split: list.splits sum.splits)



text \<open>
  C6. An input of fewer than two bytes, read from standard input or from the file, makes
  \<open>getAPI\<close> fail with the empty-or-invalid-document error; the only event is the read,
  so neither the first byte was looked at nor the YAML pass or the parser called.
\<close>

theorem getAPI_short_input:
  "length b < 2 \<Longrightarrow>
   (args = [] \<and> ioutil_ReadAll_Stdin E tr = Inr b \<longrightarrow>
      getAPI E args tr = (Inl (Errorf (msg_got b)), tr @ [EvReadAll_Stdin (Inr b)])) \<and>
   (\<forall>arg. args = [arg] \<and> ioutil_ReadFile E tr (filepath_Clean E arg) = Inr b \<longrightarrow>
      getAPI E args tr =
        (Inl (Errorf (msg_got b)), tr @ [EvReadFile (filepath_Clean E arg) (Inr b)]))"
  by (auto simp: getAPI_def getAPI_read_def getAPI_decode_def Let_def)

theorem getAPI_short_input_witness:
  "getAPI E_one_byte [] [] = (Inl (Errorf (msg_got ''{'')), [EvReadAll_Stdin (Inr ''{'')]) \<and>
   getAPI E_empty_file [''api.json''] [] =
     (Inl (Errorf (msg_got [])), [EvReadFile ''api.json'' (Inr [])])"
  using getAPI_short_input [of "''{''" "[]" E_one_byte "[]"]
    getAPI_short_input [of "[]" "[''api.json'']" E_empty_file "[]"]
  by (simp add: E_one_byte_def E_empty_file_def E0_def)

text \<open>
  C2, as the spec states it, fails: the input \<open> {}\<close> (a space, then the two bytes) has
  \<open>{\<close> as its first byte that is not white space, and the YAML pass is called on it.
\<close>

theorem getAPI_sniff_counterexample:
  "first_non_whitespace '' {}'' = Some (CHR ''{'') \<and>
   list_ex is_YAMLToJSON (snd (getAPI E_leading_space [] []))"
  by (simp add: first_non_whitespace_def is_space_def getAPI_def getAPI_read_def
      getAPI_decode_def Let_def E_leading_space_def E0_def)

text \<open>
  C2, amended. With no content-type hint and at least two bytes read, \<open>getAPI\<close> looks at
  the first byte of the input, white space or not. If it is \<open>{\<close> or \<open>[\<close> the bytes go to
  the parser as they are and the YAML pass is not called. Otherwise the YAML pass is
  called first, and the parser gets its result, or the original bytes if it failed.
\<close>

theorem getAPI_sniffs_first_byte:
  "getAPI_read E args tr = (Inr (ctUnknown, b), t1) \<Longrightarrow> 2 \<le> length b \<Longrightarrow>
   (if b ! 0 = CHR ''{'' \<or> b ! 0 = CHR ''[''
    then getAPI E args tr =
           (openapi3_LoadSwaggerFromData E b,
            t1 @ [EvLoadSwaggerFromData b (openapi3_LoadSwaggerFromData E b)])
    else getAPI E args tr =
           (let y = yaml_YAMLToJSON E b;
                jsonb = (case y of Inl err \<Rightarrow> b | Inr j \<Rightarrow> j)
            in (openapi3_LoadSwaggerFromData E jsonb,
                t1 @ [EvYAMLToJSON b y,
                      EvLoadSwaggerFromData jsonb (openapi3_LoadSwaggerFromData E jsonb)])))"
  by (simp add: getAPI_def getAPI_decode_def Let_def)

theorem getAPI_sniffs_first_byte_witness:
  "getAPI E0 [] [] =
     (Inr api_rds, [EvReadAll_Stdin (Inr ''{}''), EvLoadSwaggerFromData ''{}'' (Inr api_rds)]) \<and>
   getAPI E_leading_space [] [] =
     (Inr api_rds,
      [EvReadAll_Stdin (Inr '' {}''),
       EvYAMLToJSON '' {}'' (Inl (Foreign OtherKind ''yaml: not a mapping'')),
       EvLoadSwaggerFromData '' {}'' (Inr api_rds)])"
  using getAPI_sniffs_first_byte [of E0 "[]" "[]" "''{}''" "[EvReadAll_Stdin (Inr ''{}'')]"]
    getAPI_sniffs_first_byte [of E_leading_space "[]" "[]" "'' {}''" "[EvReadAll_Stdin (Inr '' {}'')]"]
  by (simp add: getAPI_read_def E_leading_space_def E0_def)

text \<open>
  C3. The extension of the path does not set the content type. A file \<open>api.yaml\<close> that
  starts with \<open>{\<close> goes to the parser without the YAML pass, and a file \<open>api.json\<close>
  that starts with another byte goes through the YAML pass.
\<close>

theorem getAPI_extension_ignored:
  "getAPI E0 [''api.yaml''] [] =
     (Inr api_rds,
      [EvReadFile ''api.yaml'' (Inr ''{}''), EvLoadSwaggerFromData ''{}'' (Inr api_rds)]) \<and>
   getAPI E_yaml_text [''api.json''] [] =
     (Inr api_rds,
      [EvReadFile ''api.json'' (Inr ''openapi: 3.0.0''),
       EvYAMLToJSON ''openapi: 3.0.0'' (Inl (Foreign OtherKind ''yaml: not a mapping'')),
       EvLoadSwaggerFromData ''openapi: 3.0.0'' (Inr api_rds)])"
  by (simp add: getAPI_def getAPI_read_def getAPI_decode_def filepath_Ext_def Let_def
      E_yaml_text_def E0_def)

subsection \<open>The output directory\<close>

text \<open>
  C10, as stated, fails where it says that the function succeeds whenever the path did
  not exist: the directory is then created, and the creation can fail.
\<close>

theorem ensureOutputDir_mkdir_counterexample:
  "os_Stat E_mkdir_denied [] ''out'' = Inl (Foreign NotExist ''stat: no such file or directory'') \<and>
   ensureOutputDir E_mkdir_denied cfg_out [] =
     ((False, Some (Foreign Permission ''mkdir out: permission denied'')),
      [EvStat ''out'' (Inl (Foreign NotExist ''stat: no such file or directory'')),
       EvMkdirAll ''out'' ModePerm (Some (Foreign Permission ''mkdir out: permission denied''))])"
  by (simp add: ensureOutputDir_def Let_def E_mkdir_denied_def E0_def cfg_out_def)

text \<open>
  C10, amended. Without an output path \<open>ensureOutputDir\<close> does nothing and returns
  (false, nil). With one: if the path is a directory, the probe opens the file \<open>test\<close>
  in it write-only, without the flag that would create it; when that open fails the
  function returns true and an error, and when it succeeds, true and nil. If the path
  does not exist, the function makes no probe, creates the directory and returns false
  and whatever the creation returned.
\<close>

theorem ensureOutputDir_cases:
  "(optOutputPath cfg = [] \<longrightarrow> ensureOutputDir E cfg tr = ((False, None), tr)) \<and>
   (optOutputPath cfg \<noteq> [] \<longrightarrow>
      (let p = optOutputPath cfg;
           st = os_Stat E tr p;
           t1 = tr @ [EvStat p st];
           testPath = filepath_Join E [p, ''test''];
           f = os_OpenFile E t1 testPath [O_WRONLY] mode0666;
           mk = os_MkdirAll E t1 p ModePerm;
           R = ensureOutputDir E cfg tr
       in (\<forall>fi err. st = Inr fi \<and> IsDir fi \<and> f = Inl err \<longrightarrow>
             fst (fst R) \<and> snd (fst R) \<noteq> None \<and>
             snd R = t1 @ [EvOpenFile testPath [O_WRONLY] mode0666 f]) \<and>
          (\<forall>fi fd. st = Inr fi \<and> IsDir fi \<and> f = Inr fd \<longrightarrow>
             R = ((True, None), t1 @ [EvOpenFile testPath [O_WRONLY] mode0666 f, EvClose fd])) \<and>
          (\<forall>err. st = Inl err \<and> os_IsNotExist err \<longrightarrow>
             R = ((False, mk), t1 @ [EvMkdirAll p ModePerm mk]))))"
  by (auto simp: ensureOutputDir_def Let_def)

theorem ensureOutputDir_cases_witness:
  "ensureOutputDir E0 cfg_stdout [] = ((False, None), []) \<and>
   ensureOutputDir E0 cfg_out [] =
     ((False, None),
      [EvStat ''out'' (Inl (Foreign NotExist ''stat: no such file or directory'')),
       EvMkdirAll ''out'' ModePerm None]) \<and>
   fst (fst (ensureOutputDir E_dir_exists cfg_out [])) \<and>
   snd (fst (ensureOutputDir E_dir_exists cfg_out [])) \<noteq> None \<and>
   snd (ensureOutputDir E_dir_exists cfg_out []) =
     [EvStat ''out'' (Inr \<lparr>IsDir = True\<rparr>),
      EvOpenFile ''out/test'' [O_WRONLY] mode0666
        (Inl (Foreign NotExist ''open: no such file or directory''))] \<and>
   ensureOutputDir E_probe_ok cfg_out [] =
     ((True, None),
      [EvStat ''out'' (Inr \<lparr>IsDir = True\<rparr>),
       EvOpenFile ''out/test'' [O_WRONLY] mode0666 (Inr 3),
       EvClose 3])"
  using ensureOutputDir_cases [of cfg_stdout E0 "[]"] ensureOutputDir_cases [of cfg_out E0 "[]"]
    ensureOutputDir_cases [of cfg_out E_dir_exists "[]"]
    ensureOutputDir_cases [of cfg_out E_probe_ok "[]"]
  by (simp add: Let_def cfg_stdout_def cfg_out_def E_dir_exists_def E_probe_ok_def E0_def
      filepath_Join_def)

subsection \<open>Traces of a run\<close>

text \<open>
  Each part of the program only appends events, and only events of its own class.
\<close>

lemma adds_refl: "adds P tr tr"
  by (simp add: adds_def)

lemma adds_snoc: "P e \<Longrightarrow> adds P tr (tr @ [e])"
  by (simp add: adds_def)

lemma adds_trans: "adds P a b \<Longrightarrow> adds P b c \<Longrightarrow> adds P a c"
  by (auto simp: adds_def)

lemma adds_filter:
  "adds P tr tr' \<Longrightarrow> (\<And>e. P e \<Longrightarrow> \<not> Q e) \<Longrightarrow> filter Q tr' = filter Q tr"
  by (auto simp: adds_def list_all_iff filter_empty_conv)

lemma adds_append: "adds P tr tr' \<Longrightarrow> \<exists>evs. tr' = tr @ evs"
  by (auto simp: adds_def)

lemma generateTypes_emit_stage:
  "generateTypes E cfg args tr =
     (case getAPI E args tr of
        (Inl err, t1) \<Rightarrow> (Some err, t1)
      | (Inr api, t1) \<Rightarrow>
          (case resource_ResourcesFromAPI E api of
             Inl err \<Rightarrow> (Some err, t1 @ [EvResourcesFromAPI api (Inl err)])
           | Inr resources \<Rightarrow>
               (case resource_TypeDefsFromAPI E api resources of
                  Inl err \<Rightarrow>
                    (Some err,
                     t1 @ [EvResourcesFromAPI api (Inr resources),
                           EvTypeDefsFromAPI api resources (Inl err)])
                | Inr typeDefs \<Rightarrow>
                    emit_stage E cfg api resources typeDefs
                      (t1 @ [EvResourcesFromAPI api (Inr resources),
                             EvTypeDefsFromAPI api resources (Inr typeDefs)]))))"
  by (simp add: generateTypes_def emit_stage_def Let_def split: prod.splits sum.splits)

lemma ensureOutputDir_adds:
  "adds (is_out_event cfg) tr (snd (ensureOutputDir E cfg tr))"
  by (auto simp: ensureOutputDir_def Let_def adds_def split: sum.splits)

lemma render_and_write_adds:
  "adds (is_out_event cfg) tr (snd (render_and_write E cfg k vars name tr))"
  by (auto simp: render_and_write_def render_def write_out_def Let_def adds_def
      split: sum.splits)

lemma writeDocGo_adds: "adds (is_out_event cfg) tr (snd (writeDocGo E cfg api tr))"
  by (auto simp: writeDocGo_def render_and_write_adds adds_refl split: sum.splits)

lemma writeGroupVersionInfoGo_adds:
  "adds (is_out_event cfg) tr (snd (writeGroupVersionInfoGo E cfg api tr))"
  by (auto simp: writeGroupVersionInfoGo_def render_and_write_adds adds_refl split: sum.splits)

lemma writeTypesGo_adds: "adds (is_out_event cfg) tr (snd (writeTypesGo E cfg tds tr))"
  by (simp add: writeTypesGo_def render_and_write_adds)

lemma writeResourceGo_adds: "adds (is_out_event cfg) tr (snd (writeResourceGo E cfg res tr))"
  by (simp add: writeResourceGo_def render_and_write_adds)

lemma writeResources_adds: "adds (is_out_event cfg) tr (snd (writeResources E cfg rs tr))"
proof (induction rs arbitrary: tr)
  case Nil
  show ?case by (simp add: adds_refl)
next
  case (Cons res rest)
  obtain r t1 where w: "writeResourceGo E cfg res tr = (r, t1)"
    by (cases "writeResourceGo E cfg res tr")
  have a1: "adds (is_out_event cfg) tr t1"
    using writeResourceGo_adds [of cfg tr E res] w by simp
  show ?case
  proof (cases r)
    case None
    then show ?thesis
      using w a1 Cons.IH [of t1] by (auto intro: adds_trans)
  next
    case (Some err)
    then show ?thesis using w a1 by simp
  qed
qed

lemma emit_stage_adds:
  "adds (is_out_event cfg) t3 (snd (emit_stage E cfg api rs tds t3))"
proof -
  obtain x e4 t4 where s4: "ensureOutputDir E cfg t3 = ((x, e4), t4)"
    by (metis surj_pair)
  have a4: "adds (is_out_event cfg) t3 t4"
    using ensureOutputDir_adds [of cfg t3 E] s4 by simp
  obtain e5 t5 where s5: "writeDocGo E cfg api t4 = (e5, t5)"
    by (cases "writeDocGo E cfg api t4")
  have a5: "adds (is_out_event cfg) t3 t5"
    using writeDocGo_adds [of cfg t4 E api] s5 a4 by (auto intro: adds_trans)
  obtain e6 t6 where s6: "writeGroupVersionInfoGo E cfg api t5 = (e6, t6)"
    by (cases "writeGroupVersionInfoGo E cfg api t5")
  have a6: "adds (is_out_event cfg) t3 t6"
    using writeGroupVersionInfoGo_adds [of cfg t5 E api] s6 a5 by (auto intro: adds_trans)
  obtain e7 t7 where s7: "writeTypesGo E cfg tds t6 = (e7, t7)"
    by (cases "writeTypesGo E cfg tds t6")
  have a7: "adds (is_out_event cfg) t3 t7"
    using writeTypesGo_adds [of cfg t6 E tds] s7 a6 by (auto intro: adds_trans)
  have a8: "adds (is_out_event cfg) t3 (snd (writeResources E cfg rs t7))"
    using writeResources_adds [of cfg t7 E rs] a7 by (auto intro: adds_trans)
  show ?thesis
    using s4 s5 s6 s7 a4 a5 a6 a7 a8
    by (simp add: emit_stage_def split: option.splits)
qed

lemma getAPI_adds: "adds (\<lambda>e. is_read e \<or> is_compile e) tr (snd (getAPI E args tr))"
  by (auto simp: getAPI_def getAPI_read_def getAPI_decode_def Let_def adds_def
      split: list.splits sum.splits prod.splits)

lemma generateTypes_adds:
  "adds (\<lambda>e. is_read e \<or> is_compile e \<or> is_out_event cfg e) tr
     (snd (generateTypes (E :: ('a, 'r, 't, 'p) env) cfg args tr))"
proof -
  let ?P = "\<lambda>e. is_read e \<or> is_compile e \<or> is_out_event cfg e"
  obtain r1 t1 where g: "getAPI E args tr = (r1, t1)"
    by (cases "getAPI E args tr")
  have a1: "adds ?P tr t1"
    using getAPI_adds [of tr E args] g by (auto simp: adds_def list_all_iff)
  have step: "\<And>e :: ('a, 'r, 't, 'p) event. is_compile e \<Longrightarrow> adds ?P tr (t1 @ [e])"
    using a1 by (auto simp: adds_def)
  have step2: "\<And>e e' :: ('a, 'r, 't, 'p) event.
      is_compile e \<Longrightarrow> is_compile e' \<Longrightarrow> adds ?P tr (t1 @ [e, e'])"
    using a1 by (auto simp: adds_def)
  have em: "\<And>api rs tds (e :: ('a, 'r, 't, 'p) event) e'. is_compile e \<Longrightarrow> is_compile e' \<Longrightarrow>
      adds ?P tr (snd (emit_stage E cfg api rs tds (t1 @ [e, e'])))"
  proof -
    fix api rs tds and e e' :: "('a, 'r, 't, 'p) event"
    assume c: "is_compile e" "is_compile e'"
    have "adds ?P (t1 @ [e, e']) (snd (emit_stage E cfg api rs tds (t1 @ [e, e'])))"
      using emit_stage_adds [of cfg "t1 @ [e, e']" E api rs tds]
      by (auto simp: adds_def list_all_iff)
    then show "adds ?P tr (snd (emit_stage E cfg api rs tds (t1 @ [e, e'])))"
      using step2 [OF c] by (rule adds_trans [rotated])
  qed
  show ?thesis
    using g a1 step step2 em
    by (simp add: generateTypes_emit_stage split: sum.splits)
qed

subsection \<open>The defaults of the options\<close>

lemma out_event_not_filesystem:
  "optOutputPath cfg = [] \<Longrightarrow> is_read e \<or> is_compile e \<or> is_out_event cfg e \<Longrightarrow> \<not> is_filesystem e"
  by (cases e) auto

lemma render_and_write_display:
  "optOutputPath cfg = [] \<Longrightarrow> template_New E tr k (templatesDir E) = Inr p \<Longrightarrow>
   tpl_Execute E p vars = Inr b \<Longrightarrow>
   render_and_write E cfg k vars name tr = (None, tr @ rendered E k vars p b @ displayed E name b)"
  by (simp add: render_and_write_def render_def write_out_def rendered_def displayed_def Let_def)

text \<open>
  C8. After \<open>init\<close> the version option is \<open>v1alpha1\<close> and the output path is empty.
  With an empty output path a run makes no call to the file system (no directory is
  made, no file written), and each of the four write functions, when its template is made
  and executed without error, prints the headline and the trimmed text and returns nil.
\<close>

theorem display_by_default:
  "optGenVersion (fst init) = ''v1alpha1'' \<and> optOutputPath (fst init) = [] \<and>
   (optOutputPath cfg = [] \<longrightarrow>
      filter is_filesystem (snd (generateTypes E cfg args tr)) = filter is_filesystem tr \<and>
      (\<forall>api apiGroup p b.
         apiGroupFromSwagger api = Inr apiGroup \<and>
         template_New E tr DocTemplate (templatesDir E) = Inr p \<and>
         tpl_Execute E p (DocTemplateVars (optGenVersion cfg) apiGroup) = Inr b \<longrightarrow>
         writeDocGo E cfg api tr =
           (None, tr @ rendered E DocTemplate (DocTemplateVars (optGenVersion cfg) apiGroup) p b @
                  displayed E ''doc.go'' b)) \<and>
      (\<forall>api apiGroup p b.
         apiGroupFromSwagger api = Inr apiGroup \<and>
         template_New E tr GroupVersionInfoTemplate (templatesDir E) = Inr p \<and>
         tpl_Execute E p (GroupVersionInfoTemplateVars (optGenVersion cfg) apiGroup) = Inr b \<longrightarrow>
         writeGroupVersionInfoGo E cfg api tr =
           (None, tr @ rendered E GroupVersionInfoTemplate
                         (GroupVersionInfoTemplateVars (optGenVersion cfg) apiGroup) p b @
                  displayed E ''groupversion_info.go'' b)) \<and>
      (\<forall>typeDefs p b.
         template_New E tr TypesTemplate (templatesDir E) = Inr p \<and>
         tpl_Execute E p (TypesTemplateVars (optGenVersion cfg) typeDefs) = Inr b \<longrightarrow>
         writeTypesGo E cfg typeDefs tr =
           (None, tr @ rendered E TypesTemplate (TypesTemplateVars (optGenVersion cfg) typeDefs) p b @
                  displayed E ''types.go'' b)) \<and>
      (\<forall>res p b.
         template_New E tr ResourceTemplate (templatesDir E) = Inr p \<and>
         tpl_Execute E p (ResourceTemplateVars (optGenVersion cfg) res) = Inr b \<longrightarrow>
         writeResourceGo E cfg res tr =
           (None, tr @ rendered E ResourceTemplate (ResourceTemplateVars (optGenVersion cfg) res) p b @
                  displayed E (resFileName E res) b)))"
proof -
  have d: "optGenVersion (fst init) = ''v1alpha1'' \<and> optOutputPath (fst init) = []"
    by (simp add: init_def StringVarP_def)
  have f: "optOutputPath cfg = [] \<Longrightarrow>
      filter is_filesystem (snd (generateTypes E cfg args tr)) = filter is_filesystem tr"
    using adds_filter [OF generateTypes_adds [of cfg tr E args], of is_filesystem]
      out_event_not_filesystem [of cfg] by blast
  show ?thesis
    using d f
    by (simp add: writeDocGo_def writeGroupVersionInfoGo_def writeTypesGo_def
        writeResourceGo_def render_and_write_display)
qed

theorem display_by_default_witness:
  "optGenVersion (fst init) = ''v1alpha1'' \<and> optOutputPath (fst init) = [] \<and>
   filter is_filesystem (snd (generateTypes E0 cfg_stdout [] [])) = [] \<and>
   writeTypesGo E0 cfg_stdout [''Tag''] [] =
     (None,
      [EvNewTemplate TypesTemplate ''templates'' (Inr ''v1''),
       EvExecute ''v1'' (TypesTemplateVars ''v1alpha1'' [''Tag'']) (Inr ''package v1''),
       EvStdout (headline ''types.go''),
       EvStdout (''package v1'' @ newline)]) \<and>
   writeDocGo E0 cfg_stdout api_rds [] =
     (None,
      [EvNewTemplate DocTemplate ''templates'' (Inr ''v1''),
       EvExecute ''v1'' (DocTemplateVars ''v1alpha1'' ''rds.services.k8s.aws'') (Inr ''package v1''),
       EvStdout (headline ''doc.go''),
       EvStdout (''package v1'' @ newline)]) \<and>
   writeGroupVersionInfoGo E0 cfg_stdout api_rds [] =
     (None,
      [EvNewTemplate GroupVersionInfoTemplate ''templates'' (Inr ''v1''),
       EvExecute ''v1'' (GroupVersionInfoTemplateVars ''v1alpha1'' ''rds.services.k8s.aws'')
         (Inr ''package v1''),
       EvStdout (headline ''groupversion_info.go''),
       EvStdout (''package v1'' @ newline)]) \<and>
   writeResourceGo E0 cfg_stdout \<lparr>Kind = ''Bucket''\<rparr> [] =
     (None,
      [EvNewTemplate ResourceTemplate ''templates'' (Inr ''v1''),
       EvExecute ''v1'' (ResourceTemplateVars ''v1alpha1'' \<lparr>Kind = ''Bucket''\<rparr>) (Inr ''package v1''),
       EvStdout (headline ''bucket.go''),
       EvStdout (''package v1'' @ newline)])"
proof -
  have g: "apiGroupFromSwagger api_rds = Inr ''rds.services.k8s.aws''"
    by (simp add: apiGroupFromSwagger_def strings_Replace_all_remove_char api_rds_def quote_def)
  show ?thesis
    using display_by_default [of cfg_stdout E0 "[]" "[]"] g
    by (auto simp: cfg_stdout_def E0_def rendered_def displayed_def resFileName_def
        toSnake_example_def)
qed

subsection \<open>The order of the stages\<close>

lemma render_and_write_ok:
  "render_and_write E cfg k vars name tr = (None, tr') \<Longrightarrow>
   \<exists>p b. tr' = tr @ artifact E cfg k vars name p b"
  by (auto simp: render_and_write_def render_def write_out_def artifact_def rendered_def
      displayed_def written_def Let_def split: sum.splits if_splits)

lemma writeDocGo_ok:
  "writeDocGo E cfg api tr = (None, tr') \<Longrightarrow>
   \<exists>g p b. apiGroupFromSwagger api = Inr g \<and>
     tr' = tr @ artifact E cfg DocTemplate (DocTemplateVars (optGenVersion cfg) g) ''doc.go'' p b"
  by (auto simp: writeDocGo_def split: sum.splits dest: render_and_write_ok)

lemma writeGroupVersionInfoGo_ok:
  "writeGroupVersionInfoGo E cfg api tr = (None, tr') \<Longrightarrow>
   \<exists>g p b. apiGroupFromSwagger api = Inr g \<and>
     tr' = tr @ artifact E cfg GroupVersionInfoTemplate
                  (GroupVersionInfoTemplateVars (optGenVersion cfg) g) ''groupversion_info.go'' p b"
  by (auto simp: writeGroupVersionInfoGo_def split: sum.splits dest: render_and_write_ok)

lemma writeTypesGo_ok:
  "writeTypesGo E cfg tds tr = (None, tr') \<Longrightarrow>
   \<exists>p b. tr' = tr @ artifact E cfg TypesTemplate
                       (TypesTemplateVars (optGenVersion cfg) tds) ''types.go'' p b"
  by (auto simp: writeTypesGo_def dest: render_and_write_ok)

lemma writeResources_ok:
  "writeResources E cfg rs tr = (None, tr') \<Longrightarrow>
   \<exists>xs. map fst xs = rs \<and> tr' = tr @ resource_artifacts E cfg xs"
proof (induction rs arbitrary: tr)
  case Nil
  then show ?case by (simp add: resource_artifacts_def)
next
  case (Cons res rest)
  obtain r t1 where w: "writeResourceGo E cfg res tr = (r, t1)"
    by (cases "writeResourceGo E cfg res tr")
  have r: "r = None"
    using Cons.prems w by (cases r) simp_all
  have "render_and_write E cfg ResourceTemplate
      (ResourceTemplateVars (optGenVersion cfg) res) (resFileName E res) tr = (None, t1)"
    using w r by (simp add: writeResourceGo_def)
  then obtain p b where t1: "t1 = tr @ artifact E cfg ResourceTemplate
      (ResourceTemplateVars (optGenVersion cfg) res) (resFileName E res) p b"
    using render_and_write_ok by blast
  have "writeResources E cfg rest t1 = (None, tr')"
    using Cons.prems w r by simp
  then obtain xs where xs: "map fst xs = rest" "tr' = t1 @ resource_artifacts E cfg xs"
    using Cons.IH by blast
  have "map fst ((res, p, b) # xs) = res # rest \<and>
      tr' = tr @ resource_artifacts E cfg ((res, p, b) # xs)"
    using xs t1 by (simp add: resource_artifacts_def)
  then show ?case by (rule exI)
qed

lemma ensureOutputDir_dir:
  "\<exists>evs. snd (ensureOutputDir E cfg tr) = tr @ evs \<and> list_all is_dir_event evs"
  by (auto simp: ensureOutputDir_def Let_def split: sum.splits)

lemma getAPI_ok:
  "getAPI E args tr = (Inr api, t1) \<Longrightarrow>
   \<exists>pre jsonb. t1 = tr @ pre @ [EvLoadSwaggerFromData jsonb (Inr api)] \<and> list_all is_input pre"
proof -
  assume g: "getAPI E args tr = (Inr api, t1)"
  obtain r0 t0 where rd: "getAPI_read E args tr = (r0, t0)"
    by (cases "getAPI_read E args tr")
  obtain ct b where r0: "r0 = Inr (ct, b)"
    using g rd by (cases r0) (auto simp: getAPI_def)
  obtain e0 where t0: "t0 = tr @ e0" "list_all is_input e0"
    using rd by (auto simp: getAPI_read_def Let_def split: list.splits sum.splits)
  have "\<exists>ys jsonb. t1 = t0 @ ys @ [EvLoadSwaggerFromData jsonb (Inr api)] \<and> list_all is_input ys"
    using g rd r0
    by (auto simp: getAPI_def getAPI_decode_def Let_def split: if_splits prod.splits)
  then obtain ys jsonb where
    ys: "t1 = t0 @ ys @ [EvLoadSwaggerFromData jsonb (Inr api)]" "list_all is_input ys"
    by blast
  have "t1 = tr @ (e0 @ ys) @ [EvLoadSwaggerFromData jsonb (Inr api)] \<and> list_all is_input (e0 @ ys)"
    using t0 ys by simp
  then show ?thesis by blast
qed

lemma emit_stage_ok:
  "emit_stage E cfg api rs tds t3 = (None, tr') \<Longrightarrow>
   \<exists>g dir p1 b1 p2 b2 p3 b3 xs.
     list_all is_dir_event dir \<and> map fst xs = rs \<and> apiGroupFromSwagger api = Inr g \<and>
     tr' = t3 @ dir @
       artifact E cfg DocTemplate (DocTemplateVars (optGenVersion cfg) g) ''doc.go'' p1 b1 @
       artifact E cfg GroupVersionInfoTemplate
         (GroupVersionInfoTemplateVars (optGenVersion cfg) g) ''groupversion_info.go'' p2 b2 @
       artifact E cfg TypesTemplate (TypesTemplateVars (optGenVersion cfg) tds) ''types.go'' p3 b3 @
       resource_artifacts E cfg xs"
proof -
  assume a: "emit_stage E cfg api rs tds t3 = (None, tr')"
  obtain x e4 t4 where s4: "ensureOutputDir E cfg t3 = ((x, e4), t4)"
    by (metis surj_pair)
  have e4: "e4 = None"
    using a s4 by (cases e4) (simp_all add: emit_stage_def)
  obtain dir where dir: "t4 = t3 @ dir" "list_all is_dir_event dir"
    using ensureOutputDir_dir [of E cfg t3] s4 by auto
  obtain e5 t5 where s5: "writeDocGo E cfg api t4 = (e5, t5)"
    by (cases "writeDocGo E cfg api t4")
  have e5: "e5 = None"
    using a s4 e4 s5 by (cases e5) (simp_all add: emit_stage_def)
  obtain g p1 b1 where d5: "apiGroupFromSwagger api = Inr g"
      "t5 = t4 @ artifact E cfg DocTemplate (DocTemplateVars (optGenVersion cfg) g) ''doc.go'' p1 b1"
    using writeDocGo_ok s5 e5 by blast
  obtain e6 t6 where s6: "writeGroupVersionInfoGo E cfg api t5 = (e6, t6)"
    by (cases "writeGroupVersionInfoGo E cfg api t5")
  have e6: "e6 = None"
    using a s4 e4 s5 e5 s6 by (cases e6) (simp_all add: emit_stage_def)
  obtain g' p2 b2 where d6: "apiGroupFromSwagger api = Inr g'"
      "t6 = t5 @ artifact E cfg GroupVersionInfoTemplate
         (GroupVersionInfoTemplateVars (optGenVersion cfg) g') ''groupversion_info.go'' p2 b2"
    using writeGroupVersionInfoGo_ok s6 e6 by blast
  have g': "g' = g"
    using d5 d6 by simp
  obtain e7 t7 where s7: "writeTypesGo E cfg tds t6 = (e7, t7)"
    by (cases "writeTypesGo E cfg tds t6")
  have e7: "e7 = None"
    using a s4 e4 s5 e5 s6 e6 s7 by (cases e7) (simp_all add: emit_stage_def)
  obtain p3 b3 where d7:
      "t7 = t6 @ artifact E cfg TypesTemplate (TypesTemplateVars (optGenVersion cfg) tds) ''types.go'' p3 b3"
    using writeTypesGo_ok s7 e7 by blast
  have s8: "writeResources E cfg rs t7 = (None, tr')"
    using a s4 e4 s5 e5 s6 e6 s7 e7 by (simp add: emit_stage_def)
  obtain xs where d8: "map fst xs = rs" "tr' = t7 @ resource_artifacts E cfg xs"
    using writeResources_ok [OF s8] by blast
  have all: "list_all is_dir_event dir \<and> map fst xs = rs \<and> apiGroupFromSwagger api = Inr g \<and>
     tr' = t3 @ dir @
       artifact E cfg DocTemplate (DocTemplateVars (optGenVersion cfg) g) ''doc.go'' p1 b1 @
       artifact E cfg GroupVersionInfoTemplate
         (GroupVersionInfoTemplateVars (optGenVersion cfg) g) ''groupversion_info.go'' p2 b2 @
       artifact E cfg TypesTemplate (TypesTemplateVars (optGenVersion cfg) tds) ''types.go'' p3 b3 @
       resource_artifacts E cfg xs"
    using dir d5 d6 g' d7 d8 by simp
  show ?thesis
    by (intro exI) (rule all)
qed

text \<open>
  C7. The trace of a run that returns nil is, in this order: the reads and the YAML pass,
  the parser call, the resource extraction, the type-definition extraction, the calls of
  \<open>ensureOutputDir\<close>, then one rendered and emitted artifact each for \<open>doc.go\<close>,
  \<open>groupversion_info.go\<close> and \<open>types.go\<close>, then one per resource, in the order of
  the resource list.
\<close>

theorem generateTypes_stage_order:
  "generateTypes E cfg args tr = (None, tr') \<Longrightarrow>
   \<exists>api resources typeDefs apiGroup pre jsonb dir p1 b1 p2 b2 p3 b3 xs.
     list_all is_input pre \<and> list_all is_dir_event dir \<and>
     resource_ResourcesFromAPI E api = Inr resources \<and>
     resource_TypeDefsFromAPI E api resources = Inr typeDefs \<and>
     apiGroupFromSwagger api = Inr apiGroup \<and> map fst xs = resources \<and>
     tr' = tr @ pre @
       [EvLoadSwaggerFromData jsonb (Inr api),
        EvResourcesFromAPI api (Inr resources),
        EvTypeDefsFromAPI api resources (Inr typeDefs)] @
       dir @
       artifact E cfg DocTemplate (DocTemplateVars (optGenVersion cfg) apiGroup) ''doc.go'' p1 b1 @
       artifact E cfg GroupVersionInfoTemplate
         (GroupVersionInfoTemplateVars (optGenVersion cfg) apiGroup) ''groupversion_info.go'' p2 b2 @
       artifact E cfg TypesTemplate (TypesTemplateVars (optGenVersion cfg) typeDefs) ''types.go'' p3 b3 @
       resource_artifacts E cfg xs"
proof -
  assume run: "generateTypes E cfg args tr = (None, tr')"
  obtain r1 t1 where g: "getAPI E args tr = (r1, t1)"
    by (cases "getAPI E args tr")
  obtain api where r1: "r1 = Inr api"
    using run g by (cases r1) (simp_all add: generateTypes_emit_stage)
  obtain rs where R: "resource_ResourcesFromAPI E api = Inr rs"
    using run g r1
    by (cases "resource_ResourcesFromAPI E api") (simp_all add: generateTypes_emit_stage)
  obtain tds where T: "resource_TypeDefsFromAPI E api rs = Inr tds"
    using run g r1 R
    by (cases "resource_TypeDefsFromAPI E api rs") (simp_all add: generateTypes_emit_stage)
  have em: "emit_stage E cfg api rs tds
      (t1 @ [EvResourcesFromAPI api (Inr rs), EvTypeDefsFromAPI api rs (Inr tds)]) = (None, tr')"
    using run g r1 R T by (simp add: generateTypes_emit_stage)
  obtain pre jsonb where ld: "t1 = tr @ pre @ [EvLoadSwaggerFromData jsonb (Inr api)]"
      "list_all is_input pre"
    using getAPI_ok g r1 by blast
  obtain apiGroup dir p1 b1 p2 b2 p3 b3 xs where
    out: "list_all is_dir_event dir" "map fst xs = rs" "apiGroupFromSwagger api = Inr apiGroup"
      "tr' = (t1 @ [EvResourcesFromAPI api (Inr rs), EvTypeDefsFromAPI api rs (Inr tds)]) @ dir @
        artifact E cfg DocTemplate (DocTemplateVars (optGenVersion cfg) apiGroup) ''doc.go'' p1 b1 @
        artifact E cfg GroupVersionInfoTemplate
          (GroupVersionInfoTemplateVars (optGenVersion cfg) apiGroup) ''groupversion_info.go'' p2 b2 @
        artifact E cfg TypesTemplate (TypesTemplateVars (optGenVersion cfg) tds) ''types.go'' p3 b3 @
        resource_artifacts E cfg xs"
    using emit_stage_ok [OF em] by blast
  have all: "list_all is_input pre \<and> list_all is_dir_event dir \<and>
     resource_ResourcesFromAPI E api = Inr rs \<and>
     resource_TypeDefsFromAPI E api rs = Inr tds \<and>
     apiGroupFromSwagger api = Inr apiGroup \<and> map fst xs = rs \<and>
     tr' = tr @ pre @
       [EvLoadSwaggerFromData jsonb (Inr api),
        EvResourcesFromAPI api (Inr rs),
        EvTypeDefsFromAPI api rs (Inr tds)] @
       dir @
       artifact E cfg DocTemplate (DocTemplateVars (optGenVersion cfg) apiGroup) ''doc.go'' p1 b1 @
       artifact E cfg GroupVersionInfoTemplate
         (GroupVersionInfoTemplateVars (optGenVersion cfg) apiGroup) ''groupversion_info.go'' p2 b2 @
       artifact E cfg TypesTemplate (TypesTemplateVars (optGenVersion cfg) tds) ''types.go'' p3 b3 @
       resource_artifacts E cfg xs"
    using ld out R T by simp
  show ?thesis
    by (intro exI) (rule all)
qed

theorem generateTypes_stage_order_witness:
  "fst (generateTypes E0 cfg_stdout [] []) = None \<and>
   (\<exists>api resources typeDefs apiGroup pre jsonb dir p1 b1 p2 b2 p3 b3 xs.
     list_all is_input pre \<and> list_all is_dir_event dir \<and>
     resource_ResourcesFromAPI E0 api = Inr resources \<and>
     resource_TypeDefsFromAPI E0 api resources = Inr typeDefs \<and>
     apiGroupFromSwagger api = Inr apiGroup \<and> map fst xs = resources \<and>
     snd (generateTypes E0 cfg_stdout [] []) = [] @ pre @
       [EvLoadSwaggerFromData jsonb (Inr api),
        EvResourcesFromAPI api (Inr resources),
        EvTypeDefsFromAPI api resources (Inr typeDefs)] @
       dir @
       artifact E0 cfg_stdout DocTemplate (DocTemplateVars (optGenVersion cfg_stdout) apiGroup)
         ''doc.go'' p1 b1 @
       artifact E0 cfg_stdout GroupVersionInfoTemplate
         (GroupVersionInfoTemplateVars (optGenVersion cfg_stdout) apiGroup)
         ''groupversion_info.go'' p2 b2 @
       artifact E0 cfg_stdout TypesTemplate (TypesTemplateVars (optGenVersion cfg_stdout) typeDefs)
         ''types.go'' p3 b3 @
       resource_artifacts E0 cfg_stdout xs)"
proof -
  have ok: "fst (generateTypes E0 cfg_stdout [] []) = None"
    by (simp add: run_defs example_defs)
  then have run: "generateTypes E0 cfg_stdout [] [] = (None, snd (generateTypes E0 cfg_stdout [] []))"
    by (simp add: prod_eq_iff)
  show ?thesis
    using ok generateTypes_stage_order [OF run] by simp
qed

subsection \<open>Failures and emitted artifacts\<close>

lemma getAPI_no_emit: "filter is_emit (snd (getAPI E args tr)) = filter is_emit tr"
proof (rule adds_filter [OF getAPI_adds])
  fix e :: "('a, 'b, 'c, 'd) event"
  assume "is_read e \<or> is_compile e"
  then show "\<not> is_emit e" by (cases e) auto
qed

lemma ensureOutputDir_no_emit:
  "filter is_emit (snd (ensureOutputDir E cfg tr)) = filter is_emit tr"
  by (auto simp: ensureOutputDir_def Let_def split: sum.splits)

text \<open>
  C4, as stated, fails: when the template of the second artifact cannot be made, the run
  returns the error after \<open>doc.go\<close> has been written to the output directory.
\<close>

theorem generateTypes_partial_counterexample:
  "fst (generateTypes E_gvi_template_missing cfg_out [] []) =
     Some (Foreign NotExist ''open templates/groupversion_info.go.tpl: no such file or directory'') \<and>
   filter is_emit (snd (generateTypes E_gvi_template_missing cfg_out [] [])) =
     [EvWriteFile ''out/doc.go'' ''package v1'' mode0666 None]"
  by (simp add: generateTypes_def getAPI_def getAPI_read_def getAPI_decode_def
      ensureOutputDir_def writeDocGo_def writeGroupVersionInfoGo_def render_and_write_def
      render_def write_out_def filepath_Join_def apiGroupFromSwagger_def
      strings_Replace_all_remove_char Let_def
      E_gvi_template_missing_def E0_def cfg_out_def api_rds_def quote_def)

text \<open>
  A run that fails before the first artifact returns that error and emits nothing.
\<close>

lemma early_failure_no_emit:
  "(\<forall>err t1. getAPI E args tr = (Inl err, t1) \<longrightarrow>
      generateTypes E cfg args tr = (Some err, t1) \<and> filter is_emit t1 = filter is_emit tr) \<and>
   (\<forall>api t1 err.
      getAPI E args tr = (Inr api, t1) \<and> resource_ResourcesFromAPI E api = Inl err \<longrightarrow>
      fst (generateTypes E cfg args tr) = Some err \<and>
      filter is_emit (snd (generateTypes E cfg args tr)) = filter is_emit tr) \<and>
   (\<forall>api t1 rs err.
      getAPI E args tr = (Inr api, t1) \<and> resource_ResourcesFromAPI E api = Inr rs \<and>
      resource_TypeDefsFromAPI E api rs = Inl err \<longrightarrow>
      fst (generateTypes E cfg args tr) = Some err \<and>
      filter is_emit (snd (generateTypes E cfg args tr)) = filter is_emit tr) \<and>
   (\<forall>api t1 rs tds err.
      getAPI E args tr = (Inr api, t1) \<and> resource_ResourcesFromAPI E api = Inr rs \<and>
      resource_TypeDefsFromAPI E api rs = Inr tds \<and>
      snd (fst (ensureOutputDir E cfg
                  (t1 @ [EvResourcesFromAPI api (Inr rs), EvTypeDefsFromAPI api rs (Inr tds)]))) =
        Some err \<longrightarrow>
      fst (generateTypes E cfg args tr) = Some err \<and>
      filter is_emit (snd (generateTypes E cfg args tr)) = filter is_emit tr)"
proof -
  have g: "\<And>r t1. getAPI E args tr = (r, t1) \<Longrightarrow> filter is_emit t1 = filter is_emit tr"
    using getAPI_no_emit [of E args tr] by simp
  have d: "\<And>t x err t4. ensureOutputDir E cfg t = ((x, err), t4) \<Longrightarrow>
      filter is_emit t4 = filter is_emit t"
    using ensureOutputDir_no_emit [of E cfg] by (metis snd_conv)
  show ?thesis
    by (auto simp: generateTypes_def Let_def g dest!: d split: prod.splits)
qed

text \<open>
  A failed attempt adds the events of that attempt only, and the artifacts are written
  one after the other up to the first that fails.
\<close>

lemma render_and_write_failed:
  "render_and_write E cfg k vars name tr = (Some err, tr') \<Longrightarrow>
   \<exists>fail. tr' = tr @ fail \<and> attempt_failed E cfg (k, vars, name) err fail"
  by (auto simp: render_and_write_def render_def write_out_def attempt_failed_def rendered_def
      Let_def split: sum.splits if_splits)

lemma write_all_failed:
  "write_all E cfg arts tr = (Some err, tr') \<Longrightarrow>
   \<exists>n ys fail. n < length arts \<and> map fst ys = take n arts \<and>
     tr' = tr @ emitted_artifacts E cfg ys @ fail \<and> attempt_failed E cfg (arts ! n) err fail"
proof (induction arts arbitrary: tr)
  case Nil
  then show ?case by simp
next
  case (Cons a rest)
  obtain k vars name where a: "a = (k, vars, name)"
    by (cases a)
  obtain r t1 where w: "render_and_write E cfg k vars name tr = (r, t1)"
    by (cases "render_and_write E cfg k vars name tr")
  show ?case
  proof (cases r)
    case (Some e)
    have e: "e = err" "t1 = tr'"
      using Cons.prems a w Some by simp_all
    obtain fail where f: "tr' = tr @ fail" "attempt_failed E cfg (k, vars, name) err fail"
      using render_and_write_failed w Some e by blast
    have "0 < length (a # rest) \<and> map fst [] = take 0 (a # rest) \<and>
        tr' = tr @ emitted_artifacts E cfg [] @ fail \<and>
        attempt_failed E cfg ((a # rest) ! 0) err fail"
      using f a by (simp add: emitted_artifacts_def)
    then show ?thesis by (intro exI)
  next
    case None
    obtain p b where t1: "t1 = tr @ artifact E cfg k vars name p b"
      using render_and_write_ok w None by blast
    have "write_all E cfg rest t1 = (Some err, tr')"
      using Cons.prems a w None by simp
    then obtain n ys fail where
      ih: "n < length rest" "map fst ys = take n rest"
        "tr' = t1 @ emitted_artifacts E cfg ys @ fail"
        "attempt_failed E cfg (rest ! n) err fail"
      using Cons.IH by blast
    have "Suc n < length (a # rest) \<and> map fst ((a, p, b) # ys) = take (Suc n) (a # rest) \<and>
        tr' = tr @ emitted_artifacts E cfg ((a, p, b) # ys) @ fail \<and>
        attempt_failed E cfg ((a # rest) ! Suc n) err fail"
      using ih t1 a by (simp add: emitted_artifacts_def)
    then show ?thesis by (intro exI)
  qed
qed

lemma writeResources_write_all:
  "writeResources E cfg rs tr =
     write_all E cfg
       (map (\<lambda>res. (ResourceTemplate, ResourceTemplateVars (optGenVersion cfg) res, resFileName E res)) rs)
       tr"
  by (induction rs arbitrary: tr) (simp_all add: writeResourceGo_def split: prod.splits option.splits)

lemma emit_stage_write_all:
  "ensureOutputDir E cfg t3 = ((x, None), t4) \<Longrightarrow> apiGroupFromSwagger api = Inr g \<Longrightarrow>
   emit_stage E cfg api rs tds t3 = write_all E cfg (artifact_list E cfg g tds rs) t4"
  by (simp add: emit_stage_def artifact_list_def writeDocGo_def writeGroupVersionInfoGo_def
      writeTypesGo_def writeResources_write_all split: prod.splits option.splits)

lemma emit_stage_panic:
  "ensureOutputDir E cfg t3 = ((x, None), t4) \<Longrightarrow> apiGroupFromSwagger api = Inl e \<Longrightarrow>
   emit_stage E cfg api rs tds t3 = (Some e, t4)"
  by (simp add: emit_stage_def writeDocGo_def)

lemma run_stops_at_failure:
  assumes run: "generateTypes E cfg args tr = (Some err, tr')"
    and g: "getAPI E args tr = (Inr api, t1)"
    and R: "resource_ResourcesFromAPI E api = Inr rs"
    and T: "resource_TypeDefsFromAPI E api rs = Inr tds"
    and d: "ensureOutputDir E cfg
        (t1 @ [EvResourcesFromAPI api (Inr rs), EvTypeDefsFromAPI api rs (Inr tds)]) = ((x, None), t4)"
  shows "case apiGroupFromSwagger api of
      Inl e \<Rightarrow> err = e \<and> tr' = t4
    | Inr apiGroup \<Rightarrow>
        (\<exists>n ys fail. n < length (artifact_list E cfg apiGroup tds rs) \<and>
           map fst ys = take n (artifact_list E cfg apiGroup tds rs) \<and>
           tr' = t4 @ emitted_artifacts E cfg ys @ fail \<and>
           attempt_failed E cfg (artifact_list E cfg apiGroup tds rs ! n) err fail)"
proof -
  have em: "emit_stage E cfg api rs tds
      (t1 @ [EvResourcesFromAPI api (Inr rs), EvTypeDefsFromAPI api rs (Inr tds)]) = (Some err, tr')"
    using run g R T by (simp add: generateTypes_emit_stage)
  show ?thesis
  proof (cases "apiGroupFromSwagger api")
    case (Inl e)
    then show ?thesis
      using em emit_stage_panic [OF d Inl, of rs tds] by simp
  next
    case (Inr apiGroup)
    have "write_all E cfg (artifact_list E cfg apiGroup tds rs) t4 = (Some err, tr')"
      using em emit_stage_write_all [OF d Inr, of rs tds] by simp
    then show ?thesis
      using write_all_failed Inr by simp
  qed
qed

text \<open>
  C4, amended. A run in which loading, resource extraction, type-definition extraction
  or the check of the output directory fails returns that error and emits nothing: no
  print on standard output and no file written. A run that fails later stops at the
  artifact that failed: its trace after the directory check is the events of the first
  \<open>n\<close> artifacts, each rendered and emitted, then the events of the failed attempt at
  artifact \<open>n\<close>, and nothing after them. (If the API group cannot be derived, the run
  stops before the first artifact.)
\<close>

theorem generateTypes_failure_emission:
  "(\<forall>err t1. getAPI E args tr = (Inl err, t1) \<longrightarrow>
      generateTypes E cfg args tr = (Some err, t1) \<and> filter is_emit t1 = filter is_emit tr) \<and>
   (\<forall>api t1 err.
      getAPI E args tr = (Inr api, t1) \<and> resource_ResourcesFromAPI E api = Inl err \<longrightarrow>
      fst (generateTypes E cfg args tr) = Some err \<and>
      filter is_emit (snd (generateTypes E cfg args tr)) = filter is_emit tr) \<and>
   (\<forall>api t1 rs err.
      getAPI E args tr = (Inr api, t1) \<and> resource_ResourcesFromAPI E api = Inr rs \<and>
      resource_TypeDefsFromAPI E api rs = Inl err \<longrightarrow>
      fst (generateTypes E cfg args tr) = Some err \<and>
      filter is_emit (snd (generateTypes E cfg args tr)) = filter is_emit tr) \<and>
   (\<forall>api t1 rs tds err.
      getAPI E args tr = (Inr api, t1) \<and> resource_ResourcesFromAPI E api = Inr rs \<and>
      resource_TypeDefsFromAPI E api rs = Inr tds \<and>
      snd (fst (ensureOutputDir E cfg
                  (t1 @ [EvResourcesFromAPI api (Inr rs), EvTypeDefsFromAPI api rs (Inr tds)]))) =
        Some err \<longrightarrow>
      fst (generateTypes E cfg args tr) = Some err \<and>
      filter is_emit (snd (generateTypes E cfg args tr)) = filter is_emit tr) \<and>
   (\<forall>api t1 rs tds x t4 err tr'.
      generateTypes E cfg args tr = (Some err, tr') \<and>
      getAPI E args tr = (Inr api, t1) \<and> resource_ResourcesFromAPI E api = Inr rs \<and>
      resource_TypeDefsFromAPI E api rs = Inr tds \<and>
      ensureOutputDir E cfg
        (t1 @ [EvResourcesFromAPI api (Inr rs), EvTypeDefsFromAPI api rs (Inr tds)]) =
        ((x, None), t4) \<longrightarrow>
      (case apiGroupFromSwagger api of
         Inl e \<Rightarrow> err = e \<and> tr' = t4
       | Inr apiGroup \<Rightarrow>
           (\<exists>n ys fail. n < length (artifact_list E cfg apiGroup tds rs) \<and>
              map fst ys = take n (artifact_list E cfg apiGroup tds rs) \<and>
              tr' = t4 @ emitted_artifacts E cfg ys @ fail \<and>
              attempt_failed E cfg (artifact_list E cfg apiGroup tds rs ! n) err fail)))"
proof -
  note A = early_failure_no_emit [of E args tr cfg]
  have B: "\<forall>api t1 rs tds x t4 err tr'.
      generateTypes E cfg args tr = (Some err, tr') \<and>
      getAPI E args tr = (Inr api, t1) \<and> resource_ResourcesFromAPI E api = Inr rs \<and>
      resource_TypeDefsFromAPI E api rs = Inr tds \<and>
      ensureOutputDir E cfg
        (t1 @ [EvResourcesFromAPI api (Inr rs), EvTypeDefsFromAPI api rs (Inr tds)]) =
        ((x, None), t4) \<longrightarrow>
      (case apiGroupFromSwagger api of
         Inl e \<Rightarrow> err = e \<and> tr' = t4
       | Inr apiGroup \<Rightarrow>
           (\<exists>n ys fail. n < length (artifact_list E cfg apiGroup tds rs) \<and>
              map fst ys = take n (artifact_list E cfg apiGroup tds rs) \<and>
              tr' = t4 @ emitted_artifacts E cfg ys @ fail \<and>
              attempt_failed E cfg (artifact_list E cfg apiGroup tds rs ! n) err fail))"
  proof (intro allI impI)
    fix api t1 rs tds x t4 err tr'
    assume h: "generateTypes E cfg args tr = (Some err, tr') \<and>
      getAPI E args tr = (Inr api, t1) \<and> resource_ResourcesFromAPI E api = Inr rs \<and>
      resource_TypeDefsFromAPI E api rs = Inr tds \<and>
      ensureOutputDir E cfg
        (t1 @ [EvResourcesFromAPI api (Inr rs), EvTypeDefsFromAPI api rs (Inr tds)]) =
        ((x, None), t4)"
    show "case apiGroupFromSwagger api of
         Inl e \<Rightarrow> err = e \<and> tr' = t4
       | Inr apiGroup \<Rightarrow>
           (\<exists>n ys fail. n < length (artifact_list E cfg apiGroup tds rs) \<and>
              map fst ys = take n (artifact_list E cfg apiGroup tds rs) \<and>
              tr' = t4 @ emitted_artifacts E cfg ys @ fail \<and>
              attempt_failed E cfg (artifact_list E cfg apiGroup tds rs ! n) err fail)"
      using run_stops_at_failure [of E cfg args tr err tr' api t1 rs tds x t4] h by blast
  qed
  show ?thesis
    using A B by (intro conjI) (erule conjE | assumption)+
qed

theorem generateTypes_failure_emission_witness:
  "generateTypes E_one_byte cfg_out [] [] =
     (Some (Errorf (msg_got ''{'')), [EvReadAll_Stdin (Inr ''{'')]) \<and>
   fst (generateTypes E_resources_fail cfg_out [] []) =
     Some (Foreign OtherKind ''invalid resource shape'') \<and>
   filter is_emit (snd (generateTypes E_resources_fail cfg_out [] [])) = [] \<and>
   fst (generateTypes E_typedefs_fail cfg_out [] []) =
     Some (Foreign OtherKind ''unsupported schema shape'') \<and>
   filter is_emit (snd (generateTypes E_typedefs_fail cfg_out [] [])) = [] \<and>
   fst (generateTypes E_dir_exists cfg_out [] []) =
     Some (Foreign NotExist ''open: no such file or directory'') \<and>
   filter is_emit (snd (generateTypes E_dir_exists cfg_out [] [])) = [] \<and>
   (\<exists>n ys fail.
      n < length (artifact_list E_gvi_template_missing cfg_out ''rds.services.k8s.aws'' [''Tag'']
                    [\<lparr>Kind = ''Bucket''\<rparr>, \<lparr>Kind = ''Queue''\<rparr>]) \<and>
      map fst ys =
        take n (artifact_list E_gvi_template_missing cfg_out ''rds.services.k8s.aws'' [''Tag'']
                  [\<lparr>Kind = ''Bucket''\<rparr>, \<lparr>Kind = ''Queue''\<rparr>]) \<and>
      snd (generateTypes E_gvi_template_missing cfg_out [] []) =
        [EvReadAll_Stdin (Inr ''{}''),
         EvLoadSwaggerFromData ''{}'' (Inr api_rds),
         EvResourcesFromAPI api_rds (Inr [\<lparr>Kind = ''Bucket''\<rparr>, \<lparr>Kind = ''Queue''\<rparr>]),
         EvTypeDefsFromAPI api_rds [\<lparr>Kind = ''Bucket''\<rparr>, \<lparr>Kind = ''Queue''\<rparr>] (Inr [''Tag'']),
         EvStat ''out'' (Inl (Foreign NotExist ''stat: no such file or directory'')),
         EvMkdirAll ''out'' ModePerm None] @
        emitted_artifacts E_gvi_template_missing cfg_out ys @ fail \<and>
      attempt_failed E_gvi_template_missing cfg_out
        (artifact_list E_gvi_template_missing cfg_out ''rds.services.k8s.aws'' [''Tag'']
           [\<lparr>Kind = ''Bucket''\<rparr>, \<lparr>Kind = ''Queue''\<rparr>] ! n)
        (Foreign NotExist ''open templates/groupversion_info.go.tpl: no such file or directory'')
        fail)"
proof -
  have early: "generateTypes E_one_byte cfg_out [] [] =
       (Some (Errorf (msg_got ''{'')), [EvReadAll_Stdin (Inr ''{'')]) \<and>
     fst (generateTypes E_resources_fail cfg_out [] []) =
       Some (Foreign OtherKind ''invalid resource shape'') \<and>
     filter is_emit (snd (generateTypes E_resources_fail cfg_out [] [])) = [] \<and>
     fst (generateTypes E_typedefs_fail cfg_out [] []) =
       Some (Foreign OtherKind ''unsupported schema shape'') \<and>
     filter is_emit (snd (generateTypes E_typedefs_fail cfg_out [] [])) = [] \<and>
     fst (generateTypes E_dir_exists cfg_out [] []) =
       Some (Foreign NotExist ''open: no such file or directory'') \<and>
     filter is_emit (snd (generateTypes E_dir_exists cfg_out [] [])) = []"
    using generateTypes_failure_emission [of E_one_byte "[]" "[]" cfg_out, THEN conjunct1]
      generateTypes_failure_emission [of E_resources_fail "[]" "[]" cfg_out,
        THEN conjunct2, THEN conjunct1]
      generateTypes_failure_emission [of E_typedefs_fail "[]" "[]" cfg_out,
        THEN conjunct2, THEN conjunct2, THEN conjunct1]
      generateTypes_failure_emission [of E_dir_exists "[]" "[]" cfg_out,
        THEN conjunct2, THEN conjunct2, THEN conjunct2, THEN conjunct1]
    by (simp add: getAPI_def getAPI_read_def getAPI_decode_def ensureOutputDir_def
        filepath_Join_def Let_def E_one_byte_def E_resources_fail_def E_typedefs_fail_def
        E_dir_exists_def example_defs)
  have fs: "fst (generateTypes E_gvi_template_missing cfg_out [] []) =
      Some (Foreign NotExist ''open templates/groupversion_info.go.tpl: no such file or directory'')"
    by (simp add: run_defs example_defs E_gvi_template_missing_def)
  have run: "generateTypes E_gvi_template_missing cfg_out [] [] =
      (Some (Foreign NotExist ''open templates/groupversion_info.go.tpl: no such file or directory''),
       snd (generateTypes E_gvi_template_missing cfg_out [] []))"
    using fs by (simp add: prod_eq_iff)
  have g: "getAPI E_gvi_template_missing [] [] =
      (Inr api_rds, [EvReadAll_Stdin (Inr ''{}''), EvLoadSwaggerFromData ''{}'' (Inr api_rds)])"
    by (simp add: getAPI_def getAPI_read_def getAPI_decode_def Let_def
        E_gvi_template_missing_def E0_def)
  have R: "resource_ResourcesFromAPI E_gvi_template_missing api_rds =
      Inr [\<lparr>Kind = ''Bucket''\<rparr>, \<lparr>Kind = ''Queue''\<rparr>]"
    by (simp add: E_gvi_template_missing_def E0_def)
  have T: "resource_TypeDefsFromAPI E_gvi_template_missing api_rds
      [\<lparr>Kind = ''Bucket''\<rparr>, \<lparr>Kind = ''Queue''\<rparr>] = Inr [''Tag'']"
    by (simp add: E_gvi_template_missing_def E0_def)
  have d: "ensureOutputDir E_gvi_template_missing cfg_out
      ([EvReadAll_Stdin (Inr ''{}''), EvLoadSwaggerFromData ''{}'' (Inr api_rds)] @
       [EvResourcesFromAPI api_rds (Inr [\<lparr>Kind = ''Bucket''\<rparr>, \<lparr>Kind = ''Queue''\<rparr>]),
        EvTypeDefsFromAPI api_rds [\<lparr>Kind = ''Bucket''\<rparr>, \<lparr>Kind = ''Queue''\<rparr>] (Inr [''Tag''])]) =
      ((False, None),
       [EvReadAll_Stdin (Inr ''{}''),
        EvLoadSwaggerFromData ''{}'' (Inr api_rds),
        EvResourcesFromAPI api_rds (Inr [\<lparr>Kind = ''Bucket''\<rparr>, \<lparr>Kind = ''Queue''\<rparr>]),
        EvTypeDefsFromAPI api_rds [\<lparr>Kind = ''Bucket''\<rparr>, \<lparr>Kind = ''Queue''\<rparr>] (Inr [''Tag'']),
        EvStat ''out'' (Inl (Foreign NotExist ''stat: no such file or directory'')),
        EvMkdirAll ''out'' ModePerm None])"
    by (simp add: ensureOutputDir_def Let_def E_gvi_template_missing_def E0_def cfg_out_def)
  have ag: "apiGroupFromSwagger api_rds = Inr ''rds.services.k8s.aws''"
    by (simp add: apiGroupFromSwagger_def strings_Replace_all_remove_char api_rds_def quote_def)
  note stop = generateTypes_failure_emission [of E_gvi_template_missing "[]" "[]" cfg_out,
      THEN conjunct2, THEN conjunct2, THEN conjunct2, THEN conjunct2, rule_format,
      OF conjI [OF run conjI [OF g conjI [OF R conjI [OF T d]]]]]
  show ?thesis
    using early stop ag by simp
qed

end
